theory Spec2Isabelle
  imports Main "HOL-Library.AList"
begin

section \<open>Ribbon SFU: rooms, peers and the JSON-RPC handler\<close>

text \<open>
  The development embeds the selective-forwarding server of \<^verbatim>\<open>secure-call/sfu\<close>:
  the class \<^verbatim>\<open>Room\<close> (room.js) and the registry and request handler of the
  server (\<^verbatim>\<open>getNextWorker\<close>, \<^verbatim>\<open>getOrCreateRoom\<close>, \<^verbatim>\<open>deleteRoom\<close>,
  \<^verbatim>\<open>handleRpcRequest\<close>, \<^verbatim>\<open>processMessage\<close>).

  \<open>handleRpcRequest\<close> is a handler run from its first line to its reply with no other
  handler running in between. That is how the server runs a request that has no
  \<^verbatim>\<open>await\<close> before it touches the registry (\<^verbatim>\<open>leave\<close>, \<^verbatim>\<open>getProducers\<close>), and
  any request that arrives after the previous one was answered. The server does not
  wait, though: handlers of lines that arrive together overlap at every \<^verbatim>\<open>await\<close>.
  The section on overlapping requests models the suspension points of the \<^verbatim>\<open>join\<close>
  case and of \<^verbatim>\<open>getOrCreateRoom\<close>, with Room objects held by reference.
\<close>

subsection \<open>JavaScript maps\<close>

text \<open>
  A JavaScript \<^verbatim>\<open>Map\<close> iterates in insertion order; \<^verbatim>\<open>set\<close> on a key that is
  present replaces the value where it stands, on a new key it appends; \<^verbatim>\<open>delete\<close>
  removes the entry. It is an association list, read by \<^const>\<open>map_of\<close>, written by
  \<^const>\<open>AList.update\<close> and \<^const>\<open>AList.delete\<close>.
\<close>

type_synonym ('k, 'v) jsmap = "('k \<times> 'v) list"

subsection \<open>Errors and the media engine\<close>

text \<open>
  \<open>Error m\<close> is \<^verbatim>\<open>new Error(m)\<close>. \<open>TypeError\<close> is what JavaScript throws when a
  method is called on \<^verbatim>\<open>undefined\<close>.
\<close>

datatype error = Error string | TypeError

text \<open>
  mediasoup is an external library. What it answers is a parameter of each request:
  \<open>settles\<close> is the outcome of the call the handler awaits (a rejection with its
  message, or a resolution carrying the id of the object the engine created; the id is
  unused where the call resolves to nothing), \<open>canConsume\<close> is the answer of
  \<^verbatim>\<open>router.canConsume\<close>.
\<close>

datatype reply = Rejects string | Resolves string

record engine =
  settles :: reply
  canConsume :: bool

text \<open>
  What the server makes the engine allocate or release is logged: a router created for
  a room on the worker of a given index, \<^verbatim>\<open>router.close()\<close> of a room,
  \<^verbatim>\<open>transport.close()\<close> and \<^verbatim>\<open>producer.close()\<close> by id.
\<close>

datatype effect =
    RouterCreated string nat
  | RouterClosed string
  | TransportClosed string
  | ProducerClosed string

subsection \<open>The objects a room holds\<close>

text \<open>
  Of a transport the server reads \<^verbatim>\<open>appData.consuming\<close>; of a producer its kind and
  whether it is paused; of a consumer the producer it receives and whether it is
  paused. The ids are the keys of the maps that hold the objects. The client's own
  \<^verbatim>\<open>appData\<close> and the RTP parameters are opaque to the server and left out.

  The handlers a room registers on engine events (\<^verbatim>\<open>dtlsstatechange\<close>,
  \<^verbatim>\<open>transportclose\<close>, \<^verbatim>\<open>producerclose\<close>) run when the engine raises the event.
  Events that the engine raises on its own, between requests, are not requests and are
  not modelled.
\<close>

record transport =
  consuming :: bool

record producer =
  kind :: string
  producerPaused :: bool

record consumer =
  producerId :: string
  paused :: bool

record peer =
  displayName :: string
  transports :: "(string, transport) jsmap"
  producers :: "(string, producer) jsmap"
  consumers :: "(string, consumer) jsmap"

text \<open>The router of a room is known by the index of the worker that created it.\<close>

record room =
  roomId :: string
  router :: nat
  peers :: "(string, peer) jsmap"

record peer_info =
  infoPeerId :: string
  infoDisplayName :: string
  infoProducers :: "string list"

record producer_info =
  prProducerId :: string
  prPeerId :: string
  prKind :: string

subsection \<open>class Room\<close>

definition getRtpCapabilities :: "room \<Rightarrow> nat" where
  "getRtpCapabilities rm = router rm"

definition hasPeer :: "room \<Rightarrow> string \<Rightarrow> bool" where
  "hasPeer rm peerId = (map_of (peers rm) peerId \<noteq> None)"

definition addPeer :: "string \<Rightarrow> string \<Rightarrow> room \<Rightarrow> room" where
  "addPeer peerId name rm =
     (if hasPeer rm peerId then rm
      else rm\<lparr>peers := AList.update peerId
             \<lparr>displayName = name, transports = [], producers = [], consumers = []\<rparr>
             (peers rm)\<rparr>)"

text \<open>
  \<^verbatim>\<open>removePeer\<close> returns the producer ids collected before the transports are closed,
  the close calls it makes, and the room without the peer. The \<^verbatim>\<open>transportclose\<close>
  handlers that run inside \<^verbatim>\<open>transport.close()\<close> only delete entries of the peer
  object that is dropped in the next line.
\<close>

definition removePeer :: "string \<Rightarrow> room \<Rightarrow> string list \<times> effect list \<times> room" where
  "removePeer peerId rm =
     (case map_of (peers rm) peerId of
        None \<Rightarrow> ([], [], rm)
      | Some p \<Rightarrow>
          (map fst (producers p),
           map TransportClosed (map fst (transports p)),
           rm\<lparr>peers := AList.delete peerId (peers rm)\<rparr>))"

definition getPeerCount :: "room \<Rightarrow> nat" where
  "getPeerCount rm = length (peers rm)"

definition getPeerList :: "room \<Rightarrow> peer_info list" where
  "getPeerList rm =
     map (\<lambda>(peerId, p).
            \<lparr>infoPeerId = peerId, infoDisplayName = displayName p,
             infoProducers = map fst (producers p)\<rparr>)
         (peers rm)"

definition peerNotFound :: "string \<Rightarrow> error" where
  "peerNotFound peerId = Error (''Peer '' @ peerId @ '' not found'')"

definition putPeer :: "string \<Rightarrow> peer \<Rightarrow> room \<Rightarrow> room" where
  \<comment> \<open>the peer object is mutated where it stands in the map\<close>
  "putPeer peerId p rm = rm\<lparr>peers := AList.update peerId p (peers rm)\<rparr>"

definition createWebRtcTransport :: "string \<Rightarrow> reply \<Rightarrow> room \<Rightarrow> error + string \<times> room" where
  "createWebRtcTransport peerId r rm =
     (case map_of (peers rm) peerId of
        None \<Rightarrow> Inl (peerNotFound peerId)
      | Some p \<Rightarrow>
          (case r of
             Rejects m \<Rightarrow> Inl (Error m)
           | Resolves tid \<Rightarrow>
               Inr (tid,
                    putPeer peerId
                      (p\<lparr>transports := AList.update tid \<lparr>consuming = False\<rparr> (transports p)\<rparr>)
                      rm)))"

definition connectTransport :: "string \<Rightarrow> string \<Rightarrow> reply \<Rightarrow> room \<Rightarrow> error + unit" where
  "connectTransport peerId transportId r rm =
     (case map_of (peers rm) peerId of
        None \<Rightarrow> Inl (peerNotFound peerId)
      | Some p \<Rightarrow>
          (case map_of (transports p) transportId of
             None \<Rightarrow> Inl (Error (''Transport '' @ transportId @ '' not found''))
           | Some t \<Rightarrow>
               (case r of Rejects m \<Rightarrow> Inl (Error m) | Resolves _ \<Rightarrow> Inr ())))"

definition produce ::
  "string \<Rightarrow> string \<Rightarrow> string \<Rightarrow> reply \<Rightarrow> room \<Rightarrow> error + string \<times> room" where
  "produce peerId transportId k r rm =
     (case map_of (peers rm) peerId of
        None \<Rightarrow> Inl (peerNotFound peerId)
      | Some p \<Rightarrow>
          (case map_of (transports p) transportId of
             None \<Rightarrow> Inl (Error (''Transport '' @ transportId @ '' not found''))
           | Some t \<Rightarrow>
               (case r of
                  Rejects m \<Rightarrow> Inl (Error m)
                | Resolves pid \<Rightarrow>
                    Inr (pid,
                         putPeer peerId
                           (p\<lparr>producers := AList.update pid
                                \<lparr>kind = k, producerPaused = False\<rparr> (producers p)\<rparr>)
                           rm))))"

text \<open>
  The receiving transport: the first one marked \<^verbatim>\<open>appData.consuming\<close>, else the
  first one of the map, else none.
\<close>

definition recvTransport :: "(string, transport) jsmap \<Rightarrow> string option" where
  "recvTransport ts =
     (case filter (\<lambda>(tid, t). consuming t) ts of
        (tid, t) # _ \<Rightarrow> Some tid
      | [] \<Rightarrow> (case ts of (tid, t) # _ \<Rightarrow> Some tid | [] \<Rightarrow> None))"

definition consume ::
  "string \<Rightarrow> string \<Rightarrow> engine \<Rightarrow> room \<Rightarrow> error + (string \<times> string) \<times> room" where
  "consume peerId prodId eng rm =
     (case map_of (peers rm) peerId of
        None \<Rightarrow> Inl (peerNotFound peerId)
      | Some p \<Rightarrow>
          if \<not> canConsume eng then Inl (Error ''Cannot consume'')
          else
            (case recvTransport (transports p) of
               None \<Rightarrow> Inl (Error ''No transport for consuming'')
             | Some tid \<Rightarrow>
                 (case settles eng of
                    Rejects m \<Rightarrow> Inl (Error m)
                  | Resolves cid \<Rightarrow>
                      Inr ((cid, prodId),
                           putPeer peerId
                             (p\<lparr>consumers := AList.update cid
                                  \<lparr>producerId = prodId, paused = True\<rparr> (consumers p)\<rparr>)
                             rm))))"

definition resumeConsumer :: "string \<Rightarrow> string \<Rightarrow> reply \<Rightarrow> room \<Rightarrow> error + room" where
  "resumeConsumer peerId consumerId r rm =
     (case map_of (peers rm) peerId of
        None \<Rightarrow> Inl (peerNotFound peerId)
      | Some p \<Rightarrow>
          (case map_of (consumers p) consumerId of
             None \<Rightarrow> Inl (Error (''Consumer '' @ consumerId @ '' not found''))
           | Some c \<Rightarrow>
               (case r of
                  Rejects m \<Rightarrow> Inl (Error m)
                | Resolves _ \<Rightarrow>
                    Inr (putPeer peerId
                           (p\<lparr>consumers := AList.update consumerId (c\<lparr>paused := False\<rparr>)
                                (consumers p)\<rparr>)
                           rm))))"

definition pauseProducer :: "string \<Rightarrow> string \<Rightarrow> reply \<Rightarrow> room \<Rightarrow> error + room" where
  "pauseProducer peerId prodId r rm =
     (case map_of (peers rm) peerId of
        None \<Rightarrow> Inl (peerNotFound peerId)
      | Some p \<Rightarrow>
          (case map_of (producers p) prodId of
             None \<Rightarrow> Inl (Error (''Producer '' @ prodId @ '' not found''))
           | Some pr \<Rightarrow>
               (case r of
                  Rejects m \<Rightarrow> Inl (Error m)
                | Resolves _ \<Rightarrow>
                    Inr (putPeer peerId
                           (p\<lparr>producers := AList.update prodId (pr\<lparr>producerPaused := True\<rparr>)
                                (producers p)\<rparr>)
                           rm))))"

definition resumeProducer :: "string \<Rightarrow> string \<Rightarrow> reply \<Rightarrow> room \<Rightarrow> error + room" where
  "resumeProducer peerId prodId r rm =
     (case map_of (peers rm) peerId of
        None \<Rightarrow> Inl (peerNotFound peerId)
      | Some p \<Rightarrow>
          (case map_of (producers p) prodId of
             None \<Rightarrow> Inl (Error (''Producer '' @ prodId @ '' not found''))
           | Some pr \<Rightarrow>
               (case r of
                  Rejects m \<Rightarrow> Inl (Error m)
                | Resolves _ \<Rightarrow>
                    Inr (putPeer peerId
                           (p\<lparr>producers := AList.update prodId (pr\<lparr>producerPaused := False\<rparr>)
                                (producers p)\<rparr>)
                           rm))))"

definition closeProducer :: "string \<Rightarrow> string \<Rightarrow> room \<Rightarrow> error + effect list \<times> room" where
  "closeProducer peerId prodId rm =
     (case map_of (peers rm) peerId of
        None \<Rightarrow> Inl (peerNotFound peerId)
      | Some p \<Rightarrow>
          (case map_of (producers p) prodId of
             None \<Rightarrow> Inl (Error (''Producer '' @ prodId @ '' not found''))
           | Some pr \<Rightarrow>
               Inr ([ProducerClosed prodId],
                    putPeer peerId (p\<lparr>producers := AList.delete prodId (producers p)\<rparr>) rm)))"

definition getProducersForPeer :: "string \<Rightarrow> room \<Rightarrow> producer_info list" where
  "getProducersForPeer peerId rm =
     concat (map (\<lambda>(otherPeerId, otherPeer).
                    if otherPeerId = peerId then []
                    else map (\<lambda>(prodId, pr).
                                \<lparr>prProducerId = prodId, prPeerId = otherPeerId,
                                 prKind = kind pr\<rparr>)
                             (producers otherPeer))
                 (peers rm))"

definition setPreferredLayers :: "string \<Rightarrow> string \<Rightarrow> reply \<Rightarrow> room \<Rightarrow> error + unit" where
  "setPreferredLayers peerId consumerId r rm =
     (case map_of (peers rm) peerId of
        None \<Rightarrow> Inl (peerNotFound peerId)
      | Some p \<Rightarrow>
          (case map_of (consumers p) consumerId of
             None \<Rightarrow> Inl (Error (''Consumer '' @ consumerId @ '' not found''))
           | Some c \<Rightarrow>
               (case r of Rejects m \<Rightarrow> Inl (Error m) | Resolves _ \<Rightarrow> Inr ())))"

definition close :: "room \<Rightarrow> effect list \<times> room" where
  "close rm =
     (map TransportClosed (concat (map (\<lambda>(peerId, p). map fst (transports p)) (peers rm)))
        @ [RouterClosed (roomId rm)],
      rm\<lparr>peers := []\<rparr>)"

subsection \<open>The server: workers and the room registry\<close>

text \<open>
  The state of the server: the number of engine workers (the array \<^verbatim>\<open>workers\<close> is
  filled once at start-up and only indexed afterwards), \<^verbatim>\<open>nextWorkerIdx\<close> (\<open>None\<close>
  is \<^verbatim>\<open>NaN\<close>, the value of \<^verbatim>\<open>x % 0\<close>), the registry \<^verbatim>\<open>rooms\<close>, and the log of
  what the engine was made to allocate and release.
\<close>

record server =
  workers :: nat
  nextWorkerIdx :: "nat option"
  rooms :: "(string, room) jsmap"
  effects :: "effect list"

definition init :: "nat \<Rightarrow> server" where
  "init n = \<lparr>workers = n, nextWorkerIdx = Some 0, rooms = [], effects = []\<rparr>"

text \<open>
  \<^verbatim>\<open>workers[nextWorkerIdx]\<close> is \<^verbatim>\<open>undefined\<close> out of range, written \<open>None\<close>.
\<close>

definition getNextWorker :: "server \<Rightarrow> nat option \<times> server" where
  "getNextWorker s =
     (let worker = (case nextWorkerIdx s of
                      None \<Rightarrow> None
                    | Some i \<Rightarrow> if i < workers s then Some i else None);
          next = (case nextWorkerIdx s of
                    None \<Rightarrow> None
                  | Some i \<Rightarrow> if workers s = 0 then None else Some ((i + 1) mod workers s))
      in (worker, s\<lparr>nextWorkerIdx := next\<rparr>))"

text \<open>
  \<^verbatim>\<open>getOrCreateRoom\<close> with nothing else running between its \<^verbatim>\<open>rooms.has\<close> and its
  \<^verbatim>\<open>rooms.set\<close>: exact for a call that finds the id registered, and for a call that
  creates the room while no other call for the same id is waiting for its router.
  \<open>getOrCreateRoomEnter\<close> and \<open>getOrCreateRoomResume\<close> below are its two halves.
\<close>

definition getOrCreateRoom :: "string \<Rightarrow> reply \<Rightarrow> server \<Rightarrow> (error + room) \<times> server" where
  "getOrCreateRoom rid r s =
     (case map_of (rooms s) rid of
        Some rm \<Rightarrow> (Inr rm, s)
      | None \<Rightarrow>
          (case getNextWorker s of
             (None, s1) \<Rightarrow> (Inl TypeError, s1)
           | (Some w, s1) \<Rightarrow>
               (case r of
                  Rejects m \<Rightarrow> (Inl (Error m), s1)
                | Resolves _ \<Rightarrow>
                    (let rm = \<lparr>roomId = rid, router = w, peers = []\<rparr>
                     in (Inr rm,
                         s1\<lparr>rooms := AList.update rid rm (rooms s1),
                            effects := effects s1 @ [RouterCreated rid w]\<rparr>)))))"

definition deleteRoom :: "string \<Rightarrow> server \<Rightarrow> server" where
  "deleteRoom rid s =
     (case map_of (rooms s) rid of
        None \<Rightarrow> s
      | Some rm \<Rightarrow>
          s\<lparr>rooms := AList.delete rid (rooms s),
            effects := effects s @ fst (close rm)\<rparr>)"

definition putRoom :: "string \<Rightarrow> room \<Rightarrow> server \<Rightarrow> server" where
  \<comment> \<open>the room object is mutated where it stands in the registry\<close>
  "putRoom rid rm s = s\<lparr>rooms := AList.update rid rm (rooms s)\<rparr>"

subsection \<open>The JSON-RPC handler\<close>

datatype request =
    GetRouterRtpCapabilities string
  | Join string string string
  | Leave string string
  | CreateWebRtcTransport string string bool
  | ConnectTransport string string string
  | Produce string string string string
  | Consume string string string
  | ResumeConsumer string string string
  | PauseProducer string string string
  | ResumeProducer string string string
  | CloseProducer string string string
  | GetProducers string string
  | SetPreferredLayers string string string
  | GetRoomStats string
  | Ping
  | Unknown string

datatype result =
    RtpCapabilities nat
  | Peers "peer_info list"
  | ClosedProducers "string list"
  | TransportData string
  | Empty
  | Produced string
  | Consumed string string
  | ProducerList "producer_info list"
  | RoomStats nat "peer_info list"
  | Null
  | Pong nat nat

definition roomNotFound :: error where
  "roomNotFound = Error ''Room not found''"

fun handleRpcRequest :: "engine \<Rightarrow> request \<Rightarrow> server \<Rightarrow> (error + result) \<times> server" where
  "handleRpcRequest eng (GetRouterRtpCapabilities rid) s =
     (case getOrCreateRoom rid (settles eng) s of
        (Inl e, s1) \<Rightarrow> (Inl e, s1)
      | (Inr rm, s1) \<Rightarrow> (Inr (RtpCapabilities (getRtpCapabilities rm)), s1))"
| "handleRpcRequest eng (Join rid peerId name) s =
     (case getOrCreateRoom rid (settles eng) s of
        (Inl e, s1) \<Rightarrow> (Inl e, s1)
      | (Inr rm, s1) \<Rightarrow>
          (let rm1 = addPeer peerId name rm
           in (Inr (Peers (getPeerList rm1)), putRoom rid rm1 s1)))"
| "handleRpcRequest eng (Leave rid peerId) s =
     (case map_of (rooms s) rid of
        None \<Rightarrow> (Inr (ClosedProducers []), s)
      | Some rm \<Rightarrow>
          (case removePeer peerId rm of
             (closedProducers, effs, rm1) \<Rightarrow>
               (let s1 = (putRoom rid rm1 s)\<lparr>effects := effects s @ effs\<rparr>
                in (Inr (ClosedProducers closedProducers),
                    if getPeerCount rm1 = 0 then deleteRoom rid s1 else s1))))"
| "handleRpcRequest eng (CreateWebRtcTransport rid peerId cons) s =
     (case map_of (rooms s) rid of
        None \<Rightarrow> (Inl roomNotFound, s)
      | Some rm \<Rightarrow>
          (case createWebRtcTransport peerId (settles eng) rm of
             Inl e \<Rightarrow> (Inl e, s)
           | Inr (tid, rm1) \<Rightarrow>
               (let rm2 =
                      (if cons then
                         (case map_of (peers rm1) peerId of
                            None \<Rightarrow> rm1
                          | Some p \<Rightarrow>
                              (case map_of (transports p) tid of
                                 None \<Rightarrow> rm1
                               | Some t \<Rightarrow>
                                   putPeer peerId
                                     (p\<lparr>transports := AList.update tid (t\<lparr>consuming := True\<rparr>)
                                          (transports p)\<rparr>)
                                     rm1))
                       else rm1)
                in (Inr (TransportData tid), putRoom rid rm2 s))))"
| "handleRpcRequest eng (ConnectTransport rid peerId transportId) s =
     (case map_of (rooms s) rid of
        None \<Rightarrow> (Inl roomNotFound, s)
      | Some rm \<Rightarrow>
          (case connectTransport peerId transportId (settles eng) rm of
             Inl e \<Rightarrow> (Inl e, s)
           | Inr _ \<Rightarrow> (Inr Empty, s)))"
| "handleRpcRequest eng (Produce rid peerId transportId k) s =
     (case map_of (rooms s) rid of
        None \<Rightarrow> (Inl roomNotFound, s)
      | Some rm \<Rightarrow>
          (case produce peerId transportId k (settles eng) rm of
             Inl e \<Rightarrow> (Inl e, s)
           | Inr (pid, rm1) \<Rightarrow> (Inr (Produced pid), putRoom rid rm1 s)))"
| "handleRpcRequest eng (Consume rid peerId prodId) s =
     (case map_of (rooms s) rid of
        None \<Rightarrow> (Inl roomNotFound, s)
      | Some rm \<Rightarrow>
          (case consume peerId prodId eng rm of
             Inl e \<Rightarrow> (Inl e, s)
           | Inr ((cid, pid), rm1) \<Rightarrow> (Inr (Consumed cid pid), putRoom rid rm1 s)))"
| "handleRpcRequest eng (ResumeConsumer rid peerId consumerId) s =
     (case map_of (rooms s) rid of
        None \<Rightarrow> (Inl roomNotFound, s)
      | Some rm \<Rightarrow>
          (case resumeConsumer peerId consumerId (settles eng) rm of
             Inl e \<Rightarrow> (Inl e, s)
           | Inr rm1 \<Rightarrow> (Inr Empty, putRoom rid rm1 s)))"
| "handleRpcRequest eng (PauseProducer rid peerId prodId) s =
     (case map_of (rooms s) rid of
        None \<Rightarrow> (Inl roomNotFound, s)
      | Some rm \<Rightarrow>
          (case pauseProducer peerId prodId (settles eng) rm of
             Inl e \<Rightarrow> (Inl e, s)
           | Inr rm1 \<Rightarrow> (Inr Empty, putRoom rid rm1 s)))"
| "handleRpcRequest eng (ResumeProducer rid peerId prodId) s =
     (case map_of (rooms s) rid of
        None \<Rightarrow> (Inl roomNotFound, s)
      | Some rm \<Rightarrow>
          (case resumeProducer peerId prodId (settles eng) rm of
             Inl e \<Rightarrow> (Inl e, s)
           | Inr rm1 \<Rightarrow> (Inr Empty, putRoom rid rm1 s)))"
| "handleRpcRequest eng (CloseProducer rid peerId prodId) s =
     (case map_of (rooms s) rid of
        None \<Rightarrow> (Inl roomNotFound, s)
      | Some rm \<Rightarrow>
          (case closeProducer peerId prodId rm of
             Inl e \<Rightarrow> (Inl e, s)
           | Inr (effs, rm1) \<Rightarrow>
               (Inr Empty, (putRoom rid rm1 s)\<lparr>effects := effects s @ effs\<rparr>)))"
| "handleRpcRequest eng (GetProducers rid peerId) s =
     (case map_of (rooms s) rid of
        None \<Rightarrow> (Inr (ProducerList []), s)
      | Some rm \<Rightarrow> (Inr (ProducerList (getProducersForPeer peerId rm)), s))"
| "handleRpcRequest eng (SetPreferredLayers rid peerId consumerId) s =
     (case map_of (rooms s) rid of
        None \<Rightarrow> (Inl roomNotFound, s)
      | Some rm \<Rightarrow>
          (case setPreferredLayers peerId consumerId (settles eng) rm of
             Inl e \<Rightarrow> (Inl e, s)
           | Inr _ \<Rightarrow> (Inr Empty, s)))"
| "handleRpcRequest eng (GetRoomStats rid) s =
     (case map_of (rooms s) rid of
        None \<Rightarrow> (Inr Null, s)
      | Some rm \<Rightarrow> (Inr (RoomStats (getPeerCount rm) (getPeerList rm)), s))"
| "handleRpcRequest eng Ping s = (Inr (Pong (length (rooms s)) (workers s)), s)"
| "handleRpcRequest eng (Unknown method) s = (Inl (Error (''Unknown method: '' @ method)), s)"

text \<open>
  \<^verbatim>\<open>processMessage\<close> answers every request with one JSON-RPC response: the result, or
  \<^verbatim>\<open>{code: -32000, message: err.message}\<close> for whatever the handler threw, or
  \<^verbatim>\<open>{code: -32700, message: 'Parse error'}\<close> for a line that is not JSON (\<open>None\<close>).
\<close>

datatype response = ResultResponse result | ErrorResponse int string

definition message :: "error \<Rightarrow> string" where
  "message e =
     (case e of
        Error m \<Rightarrow> m
      | TypeError \<Rightarrow> ''Cannot read properties of undefined (reading 'createRouter')'')"

definition processMessage :: "engine \<Rightarrow> request option \<Rightarrow> server \<Rightarrow> response \<times> server" where
  "processMessage eng line s =
     (case line of
        None \<Rightarrow> (ErrorResponse (- 32700) ''Parse error'', s)
      | Some req \<Rightarrow>
          (case handleRpcRequest eng req s of
             (Inl err, s1) \<Rightarrow> (ErrorResponse (- 32000) (message err), s1)
           | (Inr res, s1) \<Rightarrow> (ResultResponse res, s1)))"

subsection \<open>Runs and example states\<close>

text \<open>
  A run in turn feeds the handler one request after the other, each with the answers
  the engine gives to it: every request arrives after the one before it was answered.
  It is one of the ways the server can run, the one that builds the example states.
\<close>

fun run :: "(engine \<times> request) list \<Rightarrow> server \<Rightarrow> server" where
  "run [] s = s"
| "run ((eng, req) # rest) s = run rest (snd (handleRpcRequest eng req s))"

definition peerOf :: "server \<Rightarrow> string \<Rightarrow> string \<Rightarrow> peer option" where
  "peerOf s rid peerId =
     (case map_of (rooms s) rid of None \<Rightarrow> None | Some rm \<Rightarrow> map_of (peers rm) peerId)"

definition consumerOf :: "server \<Rightarrow> string \<Rightarrow> string \<Rightarrow> string \<Rightarrow> consumer option" where
  "consumerOf s rid peerId consumerId =
     (case peerOf s rid peerId of None \<Rightarrow> None | Some p \<Rightarrow> map_of (consumers p) consumerId)"

definition producersOfKind :: "string \<Rightarrow> peer \<Rightarrow> string list" where
  "producersOfKind k p = map fst (filter (\<lambda>(prodId, pr). kind pr = k) (producers p))"

definition answers :: "string \<Rightarrow> engine" where
  \<comment> \<open>an engine that carries the call out and hands back the id \<open>x\<close>\<close>
  "answers x = \<lparr>settles = Resolves x, canConsume = True\<rparr>"

definition refuses :: engine where
  \<comment> \<open>an engine whose router cannot serve the consume request\<close>
  "refuses = \<lparr>settles = Resolves ''c9'', canConsume = False\<rparr>"

text \<open>
  A call under way in room \<open>r\<close>: Ann has a sending and a receiving transport and
  produces audio, Bob has a receiving transport and consumes Ann's audio.
\<close>

definition call :: server where
  "call = run
     [(answers [], Join ''r'' ''a'' ''Ann''),
      (answers [], Join ''r'' ''b'' ''Bob''),
      (answers ''t1'', CreateWebRtcTransport ''r'' ''a'' False),
      (answers ''t2'', CreateWebRtcTransport ''r'' ''a'' True),
      (answers ''p1'', Produce ''r'' ''a'' ''t1'' ''audio''),
      (answers ''t3'', CreateWebRtcTransport ''r'' ''b'' True),
      (answers ''c1'', Consume ''r'' ''b'' ''p1'')]
     (init 1)"

definition ann :: peer where
  "ann = \<lparr>displayName = ''Ann'',
           transports = [(''t1'', \<lparr>consuming = False\<rparr>), (''t2'', \<lparr>consuming = True\<rparr>)],
           producers = [(''p1'', \<lparr>kind = ''audio'', producerPaused = False\<rparr>)],
           consumers = []\<rparr>"

definition bob :: peer where
  "bob = \<lparr>displayName = ''Bob'',
           transports = [(''t3'', \<lparr>consuming = True\<rparr>)],
           producers = [],
           consumers = [(''c1'', \<lparr>producerId = ''p1'', paused = True\<rparr>)]\<rparr>"

definition callRoom :: room where
  "callRoom = \<lparr>roomId = ''r'', router = 0, peers = [(''a'', ann), (''b'', bob)]\<rparr>"

text \<open>A room that a capability query registered and nobody has joined.\<close>

definition lobby :: server where
  "lobby = run [(answers [], GetRouterRtpCapabilities ''r'')] (init 1)"

text \<open>The same call after Ann's client has sent its audio produce request again.\<close>

definition retry :: server where
  "retry = run [(answers ''p2'', Produce ''r'' ''a'' ''t1'' ''audio'')] call"

definition roomProducerIds :: "room \<Rightarrow> string list" where
  \<comment> \<open>the ids of all producers the room holds, over all its peers\<close>
  "roomProducerIds rm = concat (map (\<lambda>(peerId, p). map fst (producers p)) (peers rm))"

text \<open>
  Rooms created one after the other, each call made after the one before it returned,
  by an engine that creates every router asked for.
\<close>

fun createRooms :: "string list \<Rightarrow> server \<Rightarrow> server" where
  "createRooms [] s = s"
| "createRooms (rid # rids) s = createRooms rids (snd (getOrCreateRoom rid (Resolves []) s))"

text \<open>
  Which peers have joined a room and not left it, told from the requests and their
  outcomes alone: a Join that returned adds the peer to its room, a Leave that returned
  takes it out. \<open>track\<close> follows a run in turn.
\<close>

fun joinLeave :: "request \<Rightarrow> bool" where
  "joinLeave (Join rid peerId name) = True"
| "joinLeave (Leave rid peerId) = True"
| "joinLeave req = False"

fun noteOutcome ::
  "request \<Rightarrow> error + result \<Rightarrow> (string \<Rightarrow> string set) \<Rightarrow> string \<Rightarrow> string set" where
  "noteOutcome (Join rid peerId name) (Inr res) present = present(rid := insert peerId (present rid))"
| "noteOutcome (Leave rid peerId) (Inr res) present = present(rid := present rid - {peerId})"
| "noteOutcome req res present = present"

fun track ::
  "(engine \<times> request) list \<Rightarrow> server \<times> (string \<Rightarrow> string set)
     \<Rightarrow> server \<times> (string \<Rightarrow> string set)" where
  "track [] sp = sp"
| "track ((eng, req) # rest) (s, present) =
     track rest (snd (handleRpcRequest eng req s),
                 noteOutcome req (fst (handleRpcRequest eng req s)) present)"

definition joinedNotLeft :: "(engine \<times> request) list \<Rightarrow> nat \<Rightarrow> string \<Rightarrow> string set" where
  "joinedNotLeft ops n = snd (track ops (init n, \<lambda>rid. {}))"

text \<open>How often a router was created for a room id, and how often one was closed.\<close>

fun isRouterCreated :: "string \<Rightarrow> effect \<Rightarrow> bool" where
  "isRouterCreated rid (RouterCreated r w) = (r = rid)"
| "isRouterCreated rid e = False"

definition routersCreated :: "string \<Rightarrow> effect list \<Rightarrow> nat" where
  "routersCreated rid effs = length (filter (isRouterCreated rid) effs)"

definition routersClosed :: "string \<Rightarrow> effect list \<Rightarrow> nat" where
  "routersClosed rid effs = count_list effs (RouterClosed rid)"

text \<open>
  What holds of a room id between two requests of a run of Joins and Leaves: an
  unregistered id has nobody in it and every router created for it has been closed; a
  registered room carries its own id, holds exactly the peers that joined and did not
  leave, at least one, and one router created for the id is still open.
\<close>

definition membership :: "server \<Rightarrow> (string \<Rightarrow> string set) \<Rightarrow> string \<Rightarrow> bool" where
  "membership s present rid =
     (case map_of (rooms s) rid of
        None \<Rightarrow>
          present rid = {}
          \<and> routersClosed rid (effects s) = routersCreated rid (effects s)
      | Some rm \<Rightarrow>
          roomId rm = rid \<and> peers rm \<noteq> [] \<and> distinct (map fst (peers rm))
          \<and> set (map fst (peers rm)) = present rid
          \<and> routersClosed rid (effects s) + 1 = routersCreated rid (effects s))"

text \<open>
  A run of Joins and Leaves with a repeated Join, a Leave of a stranger and a repeated
  Leave, in which the room empties and is then created again.
\<close>

definition comings :: "(engine \<times> request) list" where
  "comings =
     [(answers [], Join ''r'' ''a'' ''Ann''),
      (answers [], Join ''r'' ''b'' ''Bob''),
      (answers [], Leave ''r'' ''a''),
      (answers [], Join ''r'' ''b'' ''Bob''),
      (answers [], Leave ''r'' ''c''),
      (answers [], Leave ''r'' ''b''),
      (answers [], Leave ''r'' ''b''),
      (answers [], Join ''r'' ''c'' ''Cy'')]"

subsection \<open>Requests that overlap\<close>

text \<open>
  The socket handler calls the asynchronous \<^verbatim>\<open>processMessage\<close> for every line and
  does not await it, so a handler that reaches an \<^verbatim>\<open>await\<close> is suspended while the
  handlers of later lines run. A join request has two suspension points:
  \<^verbatim>\<open>await worker.createRouter(...)\<close> inside \<^verbatim>\<open>getOrCreateRoom\<close>, between
  \<^verbatim>\<open>rooms.has\<close> and \<^verbatim>\<open>rooms.set\<close>, and \<^verbatim>\<open>await getOrCreateRoom(...)\<close> in the
  \<^verbatim>\<open>join\<close> case, before \<^verbatim>\<open>room.addPeer\<close>. The \<^verbatim>\<open>leave\<close> case has none.

  Here every stretch of code between two suspension points is one step. Room objects
  are held by reference: \<open>objects\<close> lists every Room constructed, the address of a
  Room is its position in that list, the registry maps a room id to an address, and a
  suspended handler keeps the address it holds. \<open>handlers\<close> lists the handlers
  started, each suspended or answered.
\<close>

datatype pending =
    AtCreateRouter string nat string string
  | AtGetOrCreateRoom nat string string
  | Replied "error + result"

record overlapped =
  oWorkers :: nat
  oNextWorkerIdx :: "nat option"
  objects :: "room list"
  registry :: "(string, nat) jsmap"
  oEffects :: "effect list"
  handlers :: "pending list"

definition start :: "nat \<Rightarrow> overlapped" where
  "start n = \<lparr>oWorkers = n, oNextWorkerIdx = Some 0, objects = [], registry = [],
              oEffects = [], handlers = []\<rparr>"

definition roomAt :: "overlapped \<Rightarrow> nat \<Rightarrow> room option" where
  \<comment> \<open>the Room object behind a reference\<close>
  "roomAt s a = (if a < length (objects s) then Some (objects s ! a) else None)"

definition registeredRoom :: "overlapped \<Rightarrow> string \<Rightarrow> room option" where
  \<comment> \<open>\<^verbatim>\<open>rooms.get(roomId)\<close>\<close>
  "registeredRoom s rid =
     (case map_of (registry s) rid of None \<Rightarrow> None | Some a \<Rightarrow> roomAt s a)"

definition getNextWorkerO :: "overlapped \<Rightarrow> nat option \<times> overlapped" where
  \<comment> \<open>\<^verbatim>\<open>getNextWorker\<close>, on this state\<close>
  "getNextWorkerO s =
     (let worker = (case oNextWorkerIdx s of
                      None \<Rightarrow> None
                    | Some i \<Rightarrow> if i < oWorkers s then Some i else None);
          next = (case oNextWorkerIdx s of
                    None \<Rightarrow> None
                  | Some i \<Rightarrow> if oWorkers s = 0 then None else Some ((i + 1) mod oWorkers s))
      in (worker, s\<lparr>oNextWorkerIdx := next\<rparr>))"

text \<open>
  \<^verbatim>\<open>getOrCreateRoom\<close> up to its suspension point: it returns the registered Room, or
  throws on \<^verbatim>\<open>undefined.createRouter\<close>, or has asked the worker in turn for a router
  and waits.
\<close>

datatype entered = Returns nat | Throws error | Awaits nat

definition getOrCreateRoomEnter :: "string \<Rightarrow> overlapped \<Rightarrow> entered \<times> overlapped" where
  "getOrCreateRoomEnter rid s =
     (case map_of (registry s) rid of
        Some a \<Rightarrow> (Returns a, s)
      | None \<Rightarrow>
          (case getNextWorkerO s of
             (None, s1) \<Rightarrow> (Throws TypeError, s1)
           | (Some w, s1) \<Rightarrow> (Awaits w, s1)))"

text \<open>
  \<^verbatim>\<open>getOrCreateRoom\<close> from its suspension point on, once the engine has settled
  \<^verbatim>\<open>createRouter\<close>: \<^verbatim>\<open>new Room(roomId, router)\<close>, \<^verbatim>\<open>rooms.set(roomId, room)\<close>,
  \<^verbatim>\<open>return room\<close>. It does not look at the registry again.
\<close>

definition getOrCreateRoomResume ::
  "string \<Rightarrow> nat \<Rightarrow> reply \<Rightarrow> overlapped \<Rightarrow> (error + nat) \<times> overlapped" where
  "getOrCreateRoomResume rid w r s =
     (case r of
        Rejects m \<Rightarrow> (Inl (Error m), s)
      | Resolves _ \<Rightarrow>
          (let a = length (objects s)
           in (Inr a,
               s\<lparr>objects := objects s @ [\<lparr>roomId = rid, router = w, peers = []\<rparr>],
                 registry := AList.update rid a (registry s),
                 oEffects := oEffects s @ [RouterCreated rid w]\<rparr>)))"

text \<open>The \<^verbatim>\<open>join\<close> case up to its first suspension.\<close>

definition joinEnter :: "string \<Rightarrow> string \<Rightarrow> string \<Rightarrow> overlapped \<Rightarrow> pending \<times> overlapped" where
  "joinEnter rid peerId name s =
     (case getOrCreateRoomEnter rid s of
        (Returns a, s1) \<Rightarrow> (AtGetOrCreateRoom a peerId name, s1)
      | (Throws e, s1) \<Rightarrow> (Replied (Inl e), s1)
      | (Awaits w, s1) \<Rightarrow> (AtCreateRouter rid w peerId name, s1))"

text \<open>
  A suspended handler runs on to its next suspension or to its answer. At
  \<^verbatim>\<open>await getOrCreateRoom\<close> the rest of the \<^verbatim>\<open>join\<close> case runs on the Room the
  handler holds: \<^verbatim>\<open>room.addPeer\<close>, then the reply \<^verbatim>\<open>room.getPeerList()\<close>. (A
  reference to no object does not arise; the state is then left as it is.)
\<close>

fun continue :: "pending \<Rightarrow> reply \<Rightarrow> overlapped \<Rightarrow> pending \<times> overlapped" where
  "continue (AtCreateRouter rid w peerId name) r s =
     (case getOrCreateRoomResume rid w r s of
        (Inl e, s1) \<Rightarrow> (Replied (Inl e), s1)
      | (Inr a, s1) \<Rightarrow> (AtGetOrCreateRoom a peerId name, s1))"
| "continue (AtGetOrCreateRoom a peerId name) r s =
     (case roomAt s a of
        None \<Rightarrow> (AtGetOrCreateRoom a peerId name, s)
      | Some rm \<Rightarrow>
          (let rm1 = addPeer peerId name rm
           in (Replied (Inr (Peers (getPeerList rm1))),
               s\<lparr>objects := (objects s)[a := rm1]\<rparr>)))"
| "continue (Replied x) r s = (Replied x, s)"

text \<open>\<^verbatim>\<open>deleteRoom\<close> and the \<^verbatim>\<open>leave\<close> case, which run without suspension.\<close>

definition deleteRoomO :: "string \<Rightarrow> overlapped \<Rightarrow> overlapped" where
  "deleteRoomO rid s =
     (case map_of (registry s) rid of
        None \<Rightarrow> s
      | Some a \<Rightarrow>
          (case roomAt s a of
             None \<Rightarrow> s
           | Some rm \<Rightarrow>
               s\<lparr>objects := (objects s)[a := snd (close rm)],
                 registry := AList.delete rid (registry s),
                 oEffects := oEffects s @ fst (close rm)\<rparr>))"

definition leaveO :: "string \<Rightarrow> string \<Rightarrow> overlapped \<Rightarrow> (error + result) \<times> overlapped" where
  "leaveO rid peerId s =
     (case map_of (registry s) rid of
        None \<Rightarrow> (Inr (ClosedProducers []), s)
      | Some a \<Rightarrow>
          (case roomAt s a of
             None \<Rightarrow> (Inr (ClosedProducers []), s)
           | Some rm \<Rightarrow>
               (case removePeer peerId rm of
                  (closedProducers, effs, rm1) \<Rightarrow>
                    (let s1 = s\<lparr>objects := (objects s)[a := rm1],
                                oEffects := oEffects s @ effs\<rparr>
                     in (Inr (ClosedProducers closedProducers),
                         if getPeerCount rm1 = 0 then deleteRoomO rid s1 else s1)))))"

text \<open>
  What happens at the server, one step at a time: a join line arrives and its handler
  runs to its first suspension; a leave line arrives and is handled; the handler of
  the given number runs on (the reply is the engine's, where it waited for the engine).
\<close>

datatype event =
    JoinArrives string string string
  | LeaveArrives string string
  | Continues nat reply

fun occur :: "event \<Rightarrow> overlapped \<Rightarrow> overlapped" where
  "occur (JoinArrives rid peerId name) s =
     (case joinEnter rid peerId name s of
        (h, s1) \<Rightarrow> s1\<lparr>handlers := handlers s1 @ [h]\<rparr>)"
| "occur (LeaveArrives rid peerId) s =
     (case leaveO rid peerId s of
        (res, s1) \<Rightarrow> s1\<lparr>handlers := handlers s1 @ [Replied res]\<rparr>)"
| "occur (Continues k r) s =
     (if k < length (handlers s)
      then (case continue (handlers s ! k) r s of
              (h, s1) \<Rightarrow> s1\<lparr>handlers := (handlers s1)[k := h]\<rparr>)
      else s)"

fun play :: "event list \<Rightarrow> overlapped \<Rightarrow> overlapped" where
  "play [] s = s"
| "play (e # es) s = play es (occur e s)"

text \<open>
  One socket write carries the join lines of Ann and Bob for the unregistered room
  \<open>r\<close>: both handlers start before either router exists. Then the router for Ann's
  handler arrives and her handler finishes, then the same for Bob's.
\<close>

definition twoJoins :: "event list" where
  "twoJoins =
     [JoinArrives ''r'' ''a'' ''Ann'',
      JoinArrives ''r'' ''b'' ''Bob'',
      Continues 0 (Resolves []),
      Continues 0 (Resolves []),
      Continues 1 (Resolves []),
      Continues 1 (Resolves [])]"

text \<open>The same two join lines, Bob's arriving after Ann's was answered.\<close>

definition joinsInTurn :: "event list" where
  "joinsInTurn =
     [JoinArrives ''r'' ''a'' ''Ann'',
      Continues 0 (Resolves []),
      Continues 0 (Resolves []),
      JoinArrives ''r'' ''b'' ''Bob'',
      Continues 1 (Resolves [])]"

text \<open>A peer as \<^verbatim>\<open>addPeer\<close> enters it.\<close>

definition newPeer :: "string \<Rightarrow> peer" where
  "newPeer name = \<lparr>displayName = name, transports = [], producers = [], consumers = []\<rparr>"

section \<open>Properties\<close>

subsection \<open>Evaluation of the example states\<close>

lemmas handler_defs =
  getOrCreateRoom_def getNextWorker_def addPeer_def hasPeer_def putRoom_def putPeer_def
  createWebRtcTransport_def produce_def consume_def recvTransport_def init_def answers_def
  getPeerList_def getRtpCapabilities_def

lemma call_state:
  "call = \<lparr>workers = 1, nextWorkerIdx = Some 0, rooms = [(''r'', callRoom)],
            effects = [RouterCreated ''r'' 0]\<rparr>"
  by (simp add: call_def callRoom_def ann_def bob_def handler_defs Let_def)

lemma lobby_state:
  "lobby = \<lparr>workers = 1, nextWorkerIdx = Some 0,
             rooms = [(''r'', \<lparr>roomId = ''r'', router = 0, peers = []\<rparr>)],
             effects = [RouterCreated ''r'' 0]\<rparr>"
  by (simp add: lobby_def handler_defs Let_def)

lemma putRoom_same: "map_of (rooms s) rid = Some rm \<Longrightarrow> putRoom rid rm s = s"
  by (simp add: putRoom_def update_triv)

subsection \<open>Join\<close>

text \<open>
  Claim C7. A Join with a peer id that the room already holds changes nothing: the
  server state after the request is the state before it, so the peer's entry (display
  name, transports, producers, consumers) is the one it was, whatever display name the
  repeated request carries; the reply is the peer list of the room as it stands.
\<close>

theorem rejoin_is_noop:
  assumes "map_of (rooms s) rid = Some rm" and "map_of (peers rm) peerId = Some p"
  shows "handleRpcRequest eng (Join rid peerId name) s = (Inr (Peers (getPeerList rm)), s)"
  using assms by (simp add: getOrCreateRoom_def addPeer_def hasPeer_def putRoom_same)

theorem rejoin_is_noop_witness:
  "map_of (rooms call) ''r'' = Some callRoom \<and> map_of (peers callRoom) ''a'' = Some ann
   \<and> handleRpcRequest (answers []) (Join ''r'' ''a'' ''Anna'') call
       = (Inr (Peers
            [\<lparr>infoPeerId = ''a'', infoDisplayName = ''Ann'', infoProducers = [''p1'']\<rparr>,
             \<lparr>infoPeerId = ''b'', infoDisplayName = ''Bob'', infoProducers = []\<rparr>]), call)"
proof -
  have r: "map_of (rooms call) ''r'' = Some callRoom"
    by (simp add: call_state)
  have p: "map_of (peers callRoom) ''a'' = Some ann"
    by (simp add: callRoom_def)
  have "getPeerList callRoom =
      [\<lparr>infoPeerId = ''a'', infoDisplayName = ''Ann'', infoProducers = [''p1'']\<rparr>,
       \<lparr>infoPeerId = ''b'', infoDisplayName = ''Bob'', infoProducers = []\<rparr>]"
    by (simp add: getPeerList_def callRoom_def ann_def bob_def)
  with r p rejoin_is_noop [OF r p, of "answers []" "''Anna''"] show ?thesis
    by simp
qed

subsection \<open>The capability query\<close>

text \<open>
  Claim C10. When the room id is not registered, the server has a worker to take
  (\<^verbatim>\<open>nextWorkerIdx\<close> points into the worker array) and the engine creates the router,
  \<^verbatim>\<open>getRouterRtpCapabilities\<close> registers a new room under that id: the room has no
  peers, its router was allocated on the worker in turn, and the reply is that router's
  capabilities. So a registered room with zero peers exists before any Join.
\<close>

theorem capabilities_query_registers_empty_room:
  assumes "map_of (rooms s) rid = None" and "nextWorkerIdx s = Some i" and "i < workers s"
    and "settles eng = Resolves x"
  shows "fst (handleRpcRequest eng (GetRouterRtpCapabilities rid) s) = Inr (RtpCapabilities i)
     \<and> map_of (rooms (snd (handleRpcRequest eng (GetRouterRtpCapabilities rid) s))) rid
           = Some \<lparr>roomId = rid, router = i, peers = []\<rparr>
     \<and> map_option getPeerCount
           (map_of (rooms (snd (handleRpcRequest eng (GetRouterRtpCapabilities rid) s))) rid)
           = Some 0
     \<and> effects (snd (handleRpcRequest eng (GetRouterRtpCapabilities rid) s))
           = effects s @ [RouterCreated rid i]"
  using assms
  by (simp add: getOrCreateRoom_def getNextWorker_def getRtpCapabilities_def getPeerCount_def
      update_conv' Let_def)

theorem capabilities_query_registers_empty_room_witness:
  "map_of (rooms (init 2)) ''lobby'' = None \<and> nextWorkerIdx (init 2) = Some 0
   \<and> 0 < workers (init 2) \<and> settles (answers []) = Resolves []
   \<and> fst (handleRpcRequest (answers []) (GetRouterRtpCapabilities ''lobby'') (init 2))
       = Inr (RtpCapabilities 0)
   \<and> map_option getPeerCount
        (map_of (rooms (snd (handleRpcRequest (answers [])
           (GetRouterRtpCapabilities ''lobby'') (init 2)))) ''lobby'') = Some 0
   \<and> effects (snd (handleRpcRequest (answers []) (GetRouterRtpCapabilities ''lobby'') (init 2)))
       = [RouterCreated ''lobby'' 0]"
proof -
  have h: "map_of (rooms (init 2)) ''lobby'' = None" "nextWorkerIdx (init 2) = Some 0"
    "0 < workers (init 2)" "settles (answers []) = Resolves []"
    by (simp_all add: init_def answers_def)
  have "effects (init 2) = []"
    by (simp add: init_def)
  with h capabilities_query_registers_empty_room [OF h] show ?thesis
    by (simp add: getPeerCount_def)
qed

subsection \<open>Leave\<close>

text \<open>
  Claim C6. Leave for a peer that is in the room returns exactly the ids of the
  producers the peer holds when the request arrives, calls \<^verbatim>\<open>close()\<close> on every
  transport of the peer (the engine closes the producers and consumers on a transport
  with it) and on nothing else but the router of the room when the peer was the last
  one, and afterwards the room, if it is still registered, has no entry for the peer.
\<close>

theorem leave_present_peer:
  assumes "map_of (rooms s) rid = Some rm" and "map_of (peers rm) peerId = Some p"
  shows "fst (handleRpcRequest eng (Leave rid peerId) s)
           = Inr (ClosedProducers (map fst (producers p)))
     \<and> effects (snd (handleRpcRequest eng (Leave rid peerId) s)) =
         effects s @ map TransportClosed (map fst (transports p))
           @ (if AList.delete peerId (peers rm) = [] then [RouterClosed (roomId rm)] else [])
     \<and> peerOf (snd (handleRpcRequest eng (Leave rid peerId) s)) rid peerId = None"
  using assms
  by (simp add: removePeer_def getPeerCount_def deleteRoom_def putRoom_def close_def peerOf_def
      update_conv' delete_conv')

theorem leave_present_peer_witness:
  "map_of (rooms call) ''r'' = Some callRoom \<and> map_of (peers callRoom) ''a'' = Some ann
   \<and> fst (handleRpcRequest (answers []) (Leave ''r'' ''a'') call) = Inr (ClosedProducers [''p1''])
   \<and> effects (snd (handleRpcRequest (answers []) (Leave ''r'' ''a'') call))
       = [RouterCreated ''r'' 0, TransportClosed ''t1'', TransportClosed ''t2'']
   \<and> peerOf (snd (handleRpcRequest (answers []) (Leave ''r'' ''a'') call)) ''r'' ''a'' = None"
proof -
  have r: "map_of (rooms call) ''r'' = Some callRoom"
    by (simp add: call_state)
  have p: "map_of (peers callRoom) ''a'' = Some ann"
    by (simp add: callRoom_def)
  have e: "effects call = [RouterCreated ''r'' 0]"
    by (simp add: call_state)
  have d: "AList.delete ''a'' (peers callRoom) \<noteq> []"
    by (simp add: callRoom_def)
  from r p e d leave_present_peer [OF r p, of "answers []"] show ?thesis
    by (simp add: ann_def)
qed

subsection \<open>Listing the producers of the other peers\<close>

text \<open>
  Claim C9. The reply to \<^verbatim>\<open>getProducers\<close> for peer \<open>x\<close> in a registered room is
  \<^verbatim>\<open>getProducersForPeer\<close> of that room, and the state is untouched. No entry of the
  list is owned by \<open>x\<close>, and every producer held by any other peer of the room is in
  the list, under its id, its owner and its kind.
\<close>

theorem producers_listing_excludes_requester:
  assumes "map_of (rooms s) rid = Some rm"
  shows "handleRpcRequest eng (GetProducers rid x) s
           = (Inr (ProducerList (getProducersForPeer x rm)), s)
     \<and> (\<forall>e \<in> set (getProducersForPeer x rm). prPeerId e \<noteq> x)
     \<and> (\<forall>(q, p) \<in> set (peers rm). q \<noteq> x \<longrightarrow>
           (\<forall>(prodId, pr) \<in> set (producers p).
              \<lparr>prProducerId = prodId, prPeerId = q, prKind = kind pr\<rparr>
                \<in> set (getProducersForPeer x rm)))"
proof -
  have "prPeerId e \<noteq> x" if "e \<in> set (getProducersForPeer x rm)" for e
    using that by (auto simp: getProducersForPeer_def split: if_splits)
  moreover have "\<lparr>prProducerId = prodId, prPeerId = q, prKind = kind pr\<rparr>
      \<in> set (getProducersForPeer x rm)"
    if "(q, p) \<in> set (peers rm)" "q \<noteq> x" "(prodId, pr) \<in> set (producers p)" for q p prodId pr
    using that by (force simp: getProducersForPeer_def)
  ultimately show ?thesis
    using assms by auto
qed

theorem producers_listing_excludes_requester_witness:
  "map_of (rooms call) ''r'' = Some callRoom
   \<and> handleRpcRequest (answers []) (GetProducers ''r'' ''b'') call
       = (Inr (ProducerList
            [\<lparr>prProducerId = ''p1'', prPeerId = ''a'', prKind = ''audio''\<rparr>]), call)
   \<and> getProducersForPeer ''a'' callRoom = []"
proof -
  have r: "map_of (rooms call) ''r'' = Some callRoom"
    by (simp add: call_state)
  have "getProducersForPeer ''b'' callRoom
      = [\<lparr>prProducerId = ''p1'', prPeerId = ''a'', prKind = ''audio''\<rparr>]"
    "getProducersForPeer ''a'' callRoom = []"
    by (simp_all add: getProducersForPeer_def callRoom_def ann_def bob_def)
  with r producers_listing_excludes_requester [OF r, of "answers []" "''b''"] show ?thesis
    by simp
qed

subsection \<open>What a Leave does to the state\<close>

lemma leave_unregistered:
  "map_of (rooms s) rid = None \<Longrightarrow>
     handleRpcRequest eng (Leave rid peerId) s = (Inr (ClosedProducers []), s)"
  by simp

lemma leave_stranger:
  assumes "map_of (rooms s) rid = Some rm" and "map_of (peers rm) peerId = None"
  shows "handleRpcRequest eng (Leave rid peerId) s =
     (Inr (ClosedProducers []),
      if peers rm = []
      then s\<lparr>rooms := AList.delete rid (rooms s),
             effects := effects s @ [RouterClosed (roomId rm)]\<rparr>
      else s)"
  using assms
  by (simp add: removePeer_def getPeerCount_def putRoom_same deleteRoom_def close_def)

lemma leave_member:
  assumes "map_of (rooms s) rid = Some rm" and "map_of (peers rm) peerId = Some p"
  shows "handleRpcRequest eng (Leave rid peerId) s =
     (Inr (ClosedProducers (map fst (producers p))),
      if AList.delete peerId (peers rm) = []
      then s\<lparr>rooms := AList.delete rid (rooms s),
             effects := effects s @ map TransportClosed (map fst (transports p))
                          @ [RouterClosed (roomId rm)]\<rparr>
      else s\<lparr>rooms := AList.update rid (rm\<lparr>peers := AList.delete peerId (peers rm)\<rparr>) (rooms s),
             effects := effects s @ map TransportClosed (map fst (transports p))\<rparr>)"
  using assms
  by (simp add: removePeer_def getPeerCount_def putRoom_def deleteRoom_def close_def
      update_conv' delete_update_same Let_def)

subsection \<open>Leave for a peer that is not there\<close>

text \<open>
  Claim C2, as stated, fails: in the state a capability query leaves behind (room
  \<open>r\<close> registered with no peers), Leave for a peer that was never there returns the
  empty list and no error, but it deletes the room and closes its router.
\<close>

theorem leave_unknown_peer_changes_state_counterexample:
  "handleRpcRequest (answers []) (Leave ''r'' ''ghost'') lobby
     = (Inr (ClosedProducers []),
        \<lparr>workers = 1, nextWorkerIdx = Some 0, rooms = [],
         effects = [RouterCreated ''r'' 0, RouterClosed ''r'']\<rparr>)
   \<and> snd (handleRpcRequest (answers []) (Leave ''r'' ''ghost'') lobby) \<noteq> lobby"
  by (simp add: lobby_state removePeer_def getPeerCount_def deleteRoom_def putRoom_def close_def)

text \<open>
  Claim C2, amended. Leave for a peer id that the room does not hold (the room id may
  be unregistered) returns the empty list and no error. It leaves the state unchanged
  when the room is not registered or has at least one peer; a registered room without
  peers is deleted and its router closed. A Leave that repeats the Leave just handled
  always returns the empty list and changes nothing, whatever the state was before.
\<close>

theorem leave_absent_peer:
  "(peerOf s rid peerId = None \<longrightarrow>
      fst (handleRpcRequest eng (Leave rid peerId) s) = Inr (ClosedProducers [])
      \<and> (case map_of (rooms s) rid of
            None \<Rightarrow> snd (handleRpcRequest eng (Leave rid peerId) s) = s
          | Some rm \<Rightarrow>
              if peers rm \<noteq> [] then snd (handleRpcRequest eng (Leave rid peerId) s) = s
              else map_of (rooms (snd (handleRpcRequest eng (Leave rid peerId) s))) rid = None
                \<and> effects (snd (handleRpcRequest eng (Leave rid peerId) s))
                    = effects s @ [RouterClosed (roomId rm)]))
   \<and> handleRpcRequest eng' (Leave rid peerId) (snd (handleRpcRequest eng (Leave rid peerId) s))
       = (Inr (ClosedProducers []), snd (handleRpcRequest eng (Leave rid peerId) s))"
proof (cases "map_of (rooms s) rid")
  case None
  then show ?thesis
    by (simp add: leave_unregistered del: handleRpcRequest.simps)
next
  case room: (Some rm)
  show ?thesis
  proof (cases "map_of (peers rm) peerId")
    case None
    show ?thesis
    proof (cases "peers rm = []")
      case True
      let ?s1 = "s\<lparr>rooms := AList.delete rid (rooms s),
                    effects := effects s @ [RouterClosed (roomId rm)]\<rparr>"
      have first: "handleRpcRequest eng (Leave rid peerId) s = (Inr (ClosedProducers []), ?s1)"
        using leave_stranger [OF room None] True by simp
      have "map_of (rooms ?s1) rid = None"
        by (simp add: delete_conv')
      then have "handleRpcRequest eng' (Leave rid peerId) ?s1 = (Inr (ClosedProducers []), ?s1)"
        by (rule leave_unregistered)
      with first room True show ?thesis
        by (simp add: delete_conv' del: handleRpcRequest.simps)
    next
      case False
      have "handleRpcRequest e (Leave rid peerId) s = (Inr (ClosedProducers []), s)" for e
        using leave_stranger [OF room None] False by simp
      with room False show ?thesis
        by (simp del: handleRpcRequest.simps)
    qed
  next
    case (Some p)
    with room have present: "peerOf s rid peerId = Some p"
      by (simp add: peerOf_def)
    show ?thesis
    proof (cases "AList.delete peerId (peers rm) = []")
      case True
      let ?s1 = "s\<lparr>rooms := AList.delete rid (rooms s),
                    effects := effects s @ map TransportClosed (map fst (transports p))
                                 @ [RouterClosed (roomId rm)]\<rparr>"
      have first: "handleRpcRequest eng (Leave rid peerId) s
          = (Inr (ClosedProducers (map fst (producers p))), ?s1)"
        using leave_member [OF room Some] True by simp
      have "map_of (rooms ?s1) rid = None"
        by (simp add: delete_conv')
      then have "handleRpcRequest eng' (Leave rid peerId) ?s1 = (Inr (ClosedProducers []), ?s1)"
        by (rule leave_unregistered)
      with first present show ?thesis
        by (simp del: handleRpcRequest.simps)
    next
      case False
      let ?rm1 = "rm\<lparr>peers := AList.delete peerId (peers rm)\<rparr>"
      let ?s1 = "s\<lparr>rooms := AList.update rid ?rm1 (rooms s),
                    effects := effects s @ map TransportClosed (map fst (transports p))\<rparr>"
      have first: "handleRpcRequest eng (Leave rid peerId) s
          = (Inr (ClosedProducers (map fst (producers p))), ?s1)"
        using leave_member [OF room Some] False by simp
      have "map_of (rooms ?s1) rid = Some ?rm1" "map_of (peers ?rm1) peerId = None"
        by (simp_all add: update_conv' delete_conv')
      from leave_stranger [OF this] False
      have "handleRpcRequest eng' (Leave rid peerId) ?s1 = (Inr (ClosedProducers []), ?s1)"
        by simp
      with first present show ?thesis
        by (simp del: handleRpcRequest.simps)
    qed
  qed
qed

theorem leave_absent_peer_witness:
  "peerOf call ''r'' ''ghost'' = None
   \<and> handleRpcRequest (answers []) (Leave ''r'' ''ghost'') call = (Inr (ClosedProducers []), call)
   \<and> handleRpcRequest (answers []) (Leave ''r'' ''a'')
        (snd (handleRpcRequest (answers []) (Leave ''r'' ''a'') call))
       = (Inr (ClosedProducers []), snd (handleRpcRequest (answers []) (Leave ''r'' ''a'') call))"
proof -
  have a: "peerOf call ''r'' ''ghost'' = None"
    by (simp add: peerOf_def call_state callRoom_def)
  have r: "map_of (rooms call) ''r'' = Some callRoom" "peers callRoom \<noteq> []"
    by (simp_all add: call_state callRoom_def)
  from leave_absent_peer [of call "''r''" "''ghost''" "answers []" "answers []"] a r
  have "handleRpcRequest (answers []) (Leave ''r'' ''ghost'') call = (Inr (ClosedProducers []), call)"
    by (simp add: prod_eq_iff del: handleRpcRequest.simps)
  with a leave_absent_peer [of call "''r''" "''a''" "answers []" "answers []"] show ?thesis
    by (simp del: handleRpcRequest.simps)
qed

subsection \<open>Produce\<close>

lemma update_fresh: "k \<notin> fst ` set al \<Longrightarrow> AList.update k v al = al @ [(k, v)]"
  by (induction al) auto

text \<open>
  Claim C1, as stated, fails: when Ann's client sends its audio produce request a
  second time, Ann holds two audio producers, the first one next to the new one, and
  no \<^verbatim>\<open>close()\<close> has been called on the first.
\<close>

theorem second_produce_keeps_first_counterexample:
  "map_option (producersOfKind ''audio'') (peerOf call ''r'' ''a'') = Some [''p1'']
   \<and> map_option (producersOfKind ''audio'') (peerOf retry ''r'' ''a'') = Some [''p1'', ''p2'']
   \<and> effects retry = [RouterCreated ''r'' 0]"
  by (simp add: retry_def call_state callRoom_def ann_def peerOf_def producersOfKind_def
      produce_def putPeer_def putRoom_def answers_def)

text \<open>
  Claim C1, amended. A Produce request of a peer on one of its transports, answered by
  the engine with a producer id the peer does not hold yet, adds the new producer after
  the ones the peer holds and keeps those: the peer's producers of the requested kind
  are the former ones followed by the new one (so two after a second request for the
  same kind), and the request closes nothing.
\<close>

theorem produce_adds_producer:
  assumes "map_of (rooms s) rid = Some rm" and "map_of (peers rm) peerId = Some p"
    and "map_of (transports p) tid = Some t" and "settles eng = Resolves newId"
    and "newId \<notin> fst ` set (producers p)"
  shows "fst (handleRpcRequest eng (Produce rid peerId tid k) s) = Inr (Produced newId)
     \<and> peerOf (snd (handleRpcRequest eng (Produce rid peerId tid k) s)) rid peerId
         = Some (p\<lparr>producers := producers p @ [(newId, \<lparr>kind = k, producerPaused = False\<rparr>)]\<rparr>)
     \<and> map_option (producersOfKind k)
           (peerOf (snd (handleRpcRequest eng (Produce rid peerId tid k) s)) rid peerId)
         = Some (producersOfKind k p @ [newId])
     \<and> effects (snd (handleRpcRequest eng (Produce rid peerId tid k) s)) = effects s"
  using assms
  by (simp add: produce_def putPeer_def putRoom_def peerOf_def producersOfKind_def
      update_conv' update_fresh)

theorem produce_adds_producer_witness:
  "map_of (rooms call) ''r'' = Some callRoom \<and> map_of (peers callRoom) ''a'' = Some ann
   \<and> map_of (transports ann) ''t1'' = Some \<lparr>consuming = False\<rparr>
   \<and> settles (answers ''p2'') = Resolves ''p2'' \<and> ''p2'' \<notin> fst ` set (producers ann)
   \<and> fst (handleRpcRequest (answers ''p2'') (Produce ''r'' ''a'' ''t1'' ''audio'') call)
       = Inr (Produced ''p2'')
   \<and> map_option (producersOfKind ''audio'')
        (peerOf (snd (handleRpcRequest (answers ''p2'') (Produce ''r'' ''a'' ''t1'' ''audio'') call))
           ''r'' ''a'')
       = Some [''p1'', ''p2'']"
proof -
  have h: "map_of (rooms call) ''r'' = Some callRoom" "map_of (peers callRoom) ''a'' = Some ann"
    "map_of (transports ann) ''t1'' = Some \<lparr>consuming = False\<rparr>"
    "settles (answers ''p2'') = Resolves ''p2''" "''p2'' \<notin> fst ` set (producers ann)"
    by (simp_all add: call_state callRoom_def ann_def answers_def)
  from h produce_adds_producer [OF h, of "''audio''"] show ?thesis
    by (simp add: producersOfKind_def ann_def del: handleRpcRequest.simps)
qed

subsection \<open>Consume for a producer that is gone\<close>

text \<open>
  Claim C4, as stated, fails: Bob asks to consume a producer id that no peer of the
  room holds, the router answers that it cannot be consumed, and the response is the
  error \<^verbatim>\<open>{code: -32000, message: 'Cannot consume'}\<close>, not an error named
  ProducerNotFound. The state is unchanged.
\<close>

theorem consume_missing_producer_counterexample:
  "''gone'' \<notin> set (roomProducerIds callRoom)
   \<and> processMessage refuses (Some (Consume ''r'' ''b'' ''gone'')) call
       = (ErrorResponse (- 32000) ''Cannot consume'', call)
   \<and> fst (processMessage refuses (Some (Consume ''r'' ''b'' ''gone'')) call)
       \<noteq> ErrorResponse (- 32000) ''ProducerNotFound''"
  by (simp add: processMessage_def call_state callRoom_def ann_def bob_def roomProducerIds_def
      consume_def refuses_def message_def)

text \<open>
  Claim C4, amended. A Consume request of a peer of the room for a producer id that no
  peer of the room holds, where the router does not claim that it can be consumed,
  is answered with the structured error \<^verbatim>\<open>{code: -32000, message: 'Cannot consume'}\<close>,
  the same as for incompatible capabilities; no consumer is created and the state of
  the server is unchanged.
\<close>

theorem consume_missing_producer:
  assumes "map_of (rooms s) rid = Some rm" and "map_of (peers rm) peerId = Some p"
    and "prodId \<notin> set (roomProducerIds rm)"
    and "canConsume eng \<longrightarrow> prodId \<in> set (roomProducerIds rm)"
  shows "processMessage eng (Some (Consume rid peerId prodId)) s
           = (ErrorResponse (- 32000) ''Cannot consume'', s)"
  using assms by (simp add: processMessage_def consume_def message_def)

theorem consume_missing_producer_witness:
  "map_of (rooms call) ''r'' = Some callRoom \<and> map_of (peers callRoom) ''b'' = Some bob
   \<and> ''gone'' \<notin> set (roomProducerIds callRoom) \<and> \<not> canConsume refuses
   \<and> processMessage refuses (Some (Consume ''r'' ''b'' ''gone'')) call
       = (ErrorResponse (- 32000) ''Cannot consume'', call)"
proof -
  have h: "map_of (rooms call) ''r'' = Some callRoom" "map_of (peers callRoom) ''b'' = Some bob"
    "''gone'' \<notin> set (roomProducerIds callRoom)"
    "canConsume refuses \<longrightarrow> ''gone'' \<in> set (roomProducerIds callRoom)"
    by (simp_all add: call_state callRoom_def ann_def bob_def roomProducerIds_def refuses_def)
  have "\<not> canConsume refuses"
    by (simp add: refuses_def)
  with h consume_missing_producer [OF h] show ?thesis
    by simp
qed

subsection \<open>Creating rooms in turn\<close>

lemma getOrCreateRoom_registered:
  "map_of (rooms s) rid = Some rm \<Longrightarrow> getOrCreateRoom rid r s = (Inr rm, s)"
  by (simp add: getOrCreateRoom_def)

lemma getOrCreateRoom_new:
  assumes "map_of (rooms s) rid = None" and "nextWorkerIdx s = Some i" and "i < workers s"
  shows "getOrCreateRoom rid (Resolves x) s =
     (Inr \<lparr>roomId = rid, router = i, peers = []\<rparr>,
      s\<lparr>nextWorkerIdx := Some ((i + 1) mod workers s),
        rooms := AList.update rid \<lparr>roomId = rid, router = i, peers = []\<rparr> (rooms s),
        effects := effects s @ [RouterCreated rid i]\<rparr>)"
  using assms by (simp add: getOrCreateRoom_def getNextWorker_def Let_def)

lemma getOrCreateRoom_again:
  assumes "fst (getOrCreateRoom rid r s) = Inr rm"
  shows "getOrCreateRoom rid r' (snd (getOrCreateRoom rid r s))
           = (Inr rm, snd (getOrCreateRoom rid r s))"
proof (cases "map_of (rooms s) rid")
  case (Some rm0)
  with assms show ?thesis
    by (simp add: getOrCreateRoom_registered)
next
  case None
  with assms have "map_of (rooms (snd (getOrCreateRoom rid r s))) rid = Some rm"
    by (auto simp: getOrCreateRoom_def getNextWorker_def Let_def update_conv'
        split: option.splits reply.splits if_splits)
  then show ?thesis
    by (rule getOrCreateRoom_registered)
qed

lemma createRooms_round_robin:
  assumes "nextWorkerIdx s = Some i" and "i < workers s" and "distinct rids"
    and "\<forall>rid \<in> set rids. map_of (rooms s) rid = None"
  shows "(\<forall>j < length rids. map_of (rooms (createRooms rids s)) (rids ! j)
            = Some \<lparr>roomId = rids ! j, router = (i + j) mod workers s, peers = []\<rparr>)
     \<and> (\<forall>rid. rid \<notin> set rids \<longrightarrow> map_of (rooms (createRooms rids s)) rid = map_of (rooms s) rid)
     \<and> effects (createRooms rids s)
         = effects s @ map (\<lambda>(j, rid). RouterCreated rid ((i + j) mod workers s)) (enumerate 0 rids)"
  using assms
proof (induction rids arbitrary: s i)
  case Nil
  then show ?case by simp
next
  case (Cons rid rids)
  let ?n = "workers s"
  let ?rm = "\<lparr>roomId = rid, router = i, peers = []\<rparr>"
  let ?s1 = "s\<lparr>nextWorkerIdx := Some ((i + 1) mod ?n),
               rooms := AList.update rid ?rm (rooms s),
               effects := effects s @ [RouterCreated rid i]\<rparr>"
  have step: "snd (getOrCreateRoom rid (Resolves []) s) = ?s1"
    using Cons.prems by (simp add: getOrCreateRoom_new)
  have pre: "nextWorkerIdx ?s1 = Some ((i + 1) mod ?n)" "(i + 1) mod ?n < workers ?s1"
    "distinct rids" "\<forall>r \<in> set rids. map_of (rooms ?s1) r = None"
    using Cons.prems by (auto simp: update_conv')
  note ih = Cons.IH [OF pre]
  have head: "map_of (rooms (createRooms rids ?s1)) rid = Some ?rm"
    using ih Cons.prems by (simp add: update_conv')
  have rooms: "map_of (rooms (createRooms (rid # rids) s)) ((rid # rids) ! j)
      = Some \<lparr>roomId = (rid # rids) ! j, router = (i + j) mod ?n, peers = []\<rparr>"
    if "j < length (rid # rids)" for j
  proof (cases j)
    case 0
    with head step Cons.prems show ?thesis by simp
  next
    case (Suc j')
    with that ih step show ?thesis
      by (simp add: mod_add_left_eq)
  qed
  have others: "map_of (rooms (createRooms (rid # rids) s)) r = map_of (rooms s) r"
    if "r \<notin> set (rid # rids)" for r
    using that ih step by (simp add: update_conv')
  have "map (\<lambda>(j, r). RouterCreated r (((i + 1) mod ?n + j) mod ?n)) (enumerate 0 rids)
      = map (\<lambda>(j, r). RouterCreated r ((i + j) mod ?n)) (enumerate (Suc 0) rids)"
    by (simp add: enumerate_Suc_eq [of 0] mod_add_left_eq split_def)
  with ih step Cons.prems
  have effs: "effects (createRooms (rid # rids) s)
      = effects s @ map (\<lambda>(j, r). RouterCreated r ((i + j) mod ?n)) (enumerate 0 (rid # rids))"
    by simp
  from rooms others effs show ?case
    by blast
qed

text \<open>
  Calls that do not overlap. \<^verbatim>\<open>getOrCreateRoom\<close> on a registered room id returns the
  registered room and leaves the server state as it is, so no router is allocated; a
  second call made after a successful one has returned gives the same room and changes
  nothing. Rooms created in turn for distinct unregistered ids, on a server whose
  \<^verbatim>\<open>nextWorkerIdx\<close> is \<open>i\<close> within the worker array and with an engine that creates
  every router, take the workers in turn: the \<open>j\<close>-th room gets its router on worker
  \<open>(i + j) mod n\<close> of the \<open>n\<close> workers.
\<close>

lemma in_turn_getOrCreateRoom_idempotent_round_robin:
  "(map_of (rooms s) rid = Some rm \<longrightarrow> getOrCreateRoom rid r s = (Inr rm, s))
   \<and> (fst (getOrCreateRoom rid r s) = Inr rm \<longrightarrow>
        getOrCreateRoom rid r' (snd (getOrCreateRoom rid r s))
          = (Inr rm, snd (getOrCreateRoom rid r s)))
   \<and> (nextWorkerIdx s = Some i \<and> i < workers s \<and> distinct rids
        \<and> (\<forall>rid \<in> set rids. map_of (rooms s) rid = None) \<longrightarrow>
        (\<forall>j < length rids. map_option router (map_of (rooms (createRooms rids s)) (rids ! j))
            = Some ((i + j) mod workers s))
        \<and> effects (createRooms rids s)
            = effects s
              @ map (\<lambda>(j, rid). RouterCreated rid ((i + j) mod workers s)) (enumerate 0 rids))"
  using getOrCreateRoom_registered [of s rid rm r] getOrCreateRoom_again [of rid r s rm r']
    createRooms_round_robin [of s i rids]
  by simp

lemma in_turn_getOrCreateRoom_example:
  "map_of (rooms call) ''r'' = Some callRoom
   \<and> getOrCreateRoom ''r'' (Resolves []) call = (Inr callRoom, call)
   \<and> nextWorkerIdx (init 3) = Some 0 \<and> 0 < workers (init 3)
   \<and> distinct [''r1'', ''r2'', ''r3'', ''r4'']
   \<and> map_option router
        (map_of (rooms (createRooms [''r1'', ''r2'', ''r3'', ''r4''] (init 3))) ''r3'') = Some 2
   \<and> map_option router
        (map_of (rooms (createRooms [''r1'', ''r2'', ''r3'', ''r4''] (init 3))) ''r4'') = Some 0
   \<and> effects (createRooms [''r1'', ''r2'', ''r3'', ''r4''] (init 3))
       = [RouterCreated ''r1'' 0, RouterCreated ''r2'' 1, RouterCreated ''r3'' 2,
          RouterCreated ''r4'' 0]"
proof -
  let ?rids = "[''r1'', ''r2'', ''r3'', ''r4'']"
  have r: "map_of (rooms call) ''r'' = Some callRoom"
    by (simp add: call_state)
  have h: "nextWorkerIdx (init 3) = Some 0" "0 < workers (init 3)" "distinct ?rids"
    "\<forall>rid \<in> set ?rids. map_of (rooms (init 3)) rid = None" "effects (init 3) = []"
    "workers (init 3) = 3"
    by (simp_all add: init_def)
  have made: "createRooms ?rids (init 3) =
      \<lparr>workers = 3, nextWorkerIdx = Some 1,
       rooms = [(''r1'', \<lparr>roomId = ''r1'', router = 0, peers = []\<rparr>),
                (''r2'', \<lparr>roomId = ''r2'', router = 1, peers = []\<rparr>),
                (''r3'', \<lparr>roomId = ''r3'', router = 2, peers = []\<rparr>),
                (''r4'', \<lparr>roomId = ''r4'', router = 0, peers = []\<rparr>)],
       effects = [RouterCreated ''r1'' 0, RouterCreated ''r2'' 1, RouterCreated ''r3'' 2,
                  RouterCreated ''r4'' 0]\<rparr>"
    by (simp add: init_def getOrCreateRoom_def getNextWorker_def Let_def)
  note t = in_turn_getOrCreateRoom_idempotent_round_robin
  from t [of call "''r''" callRoom "Resolves []"] r
  have a: "getOrCreateRoom ''r'' (Resolves []) call = (Inr callRoom, call)"
    by blast
  from t [of "init 3" "''r''" callRoom "Resolves []" "Resolves []" 0 ?rids] a r h show ?thesis
    by (simp only: made) simp
qed

subsection \<open>Consumers start paused\<close>

lemma consume_success:
  assumes "handleRpcRequest eng (Consume rid peerId prodId) s = (Inr (Consumed cid pid), s')"
  shows "pid = prodId
     \<and> consumerOf s' rid peerId cid = Some \<lparr>producerId = prodId, paused = True\<rparr>"
  using assms
  by (auto simp: consume_def putPeer_def putRoom_def consumerOf_def peerOf_def update_conv'
      roomNotFound_def split: option.splits if_splits reply.splits)

lemma resume_unpauses:
  assumes "consumerOf s rid peerId cid = Some c" and "settles eng = Resolves x"
  shows "consumerOf (snd (handleRpcRequest eng (ResumeConsumer rid peerId cid) s)) rid peerId cid
           = Some (c\<lparr>paused := False\<rparr>)"
  using assms
  by (auto simp: resumeConsumer_def putPeer_def putRoom_def consumerOf_def peerOf_def
      update_conv' split: option.splits)

lemma only_resume_unpauses:
  assumes "consumerOf s rid peerId cid = Some c" and "paused c"
    and "consumerOf (snd (handleRpcRequest eng req s)) rid peerId cid = Some c'"
    and "\<not> paused c'"
  shows "req = ResumeConsumer rid peerId cid"
proof (cases req)
  case (GetRouterRtpCapabilities x1)
  with assms show ?thesis
    by (auto simp: consumerOf_def peerOf_def getOrCreateRoom_def getNextWorker_def Let_def
        update_conv' split: option.splits reply.splits if_splits prod.splits sum.splits)
next
  case (Join x21 x22 x23)
  with assms show ?thesis
    by (auto simp: consumerOf_def peerOf_def getOrCreateRoom_def getNextWorker_def Let_def
        addPeer_def hasPeer_def putRoom_def
        update_conv' split: option.splits reply.splits if_splits prod.splits sum.splits)
next
  case (Leave x31 x32)
  with assms show ?thesis
    by (auto simp: consumerOf_def peerOf_def removePeer_def deleteRoom_def getPeerCount_def
        putRoom_def close_def Let_def delete_conv'
        update_conv' split: option.splits reply.splits if_splits prod.splits sum.splits)
next
  case (CreateWebRtcTransport x41 x42 x43)
  with assms show ?thesis
    by (auto simp: consumerOf_def peerOf_def createWebRtcTransport_def putRoom_def putPeer_def
        Let_def roomNotFound_def
        update_conv' split: option.splits reply.splits if_splits prod.splits sum.splits)
next
  case (ConnectTransport x51 x52 x53)
  with assms show ?thesis
    by (auto split: option.splits sum.splits)
next
  case (Produce x61 x62 x63 x64)
  with assms show ?thesis
    by (auto simp: consumerOf_def peerOf_def produce_def putRoom_def putPeer_def
        update_conv' split: option.splits reply.splits if_splits prod.splits sum.splits)
next
  case (Consume x71 x72 x73)
  with assms show ?thesis
    by (auto simp: consumerOf_def peerOf_def consume_def putRoom_def putPeer_def
        update_conv' split: option.splits reply.splits if_splits prod.splits sum.splits)
next
  case (ResumeConsumer x81 x82 x83)
  with assms show ?thesis
    by (auto simp: consumerOf_def peerOf_def resumeConsumer_def putRoom_def putPeer_def
        update_conv' split: option.splits reply.splits if_splits prod.splits sum.splits)
next
  case (PauseProducer x91 x92 x93)
  with assms show ?thesis
    by (auto simp: consumerOf_def peerOf_def pauseProducer_def putRoom_def putPeer_def
        update_conv' split: option.splits reply.splits if_splits prod.splits sum.splits)
next
  case (ResumeProducer x101 x102 x103)
  with assms show ?thesis
    by (auto simp: consumerOf_def peerOf_def resumeProducer_def putRoom_def putPeer_def
        update_conv' split: option.splits reply.splits if_splits prod.splits sum.splits)
next
  case (CloseProducer x111 x112 x113)
  with assms show ?thesis
    by (auto simp: consumerOf_def peerOf_def closeProducer_def putRoom_def putPeer_def
        update_conv' split: option.splits reply.splits if_splits prod.splits sum.splits)
next
  case (GetProducers x121 x122)
  with assms show ?thesis
    by (auto split: option.splits)
next
  case (SetPreferredLayers x131 x132 x133)
  with assms show ?thesis
    by (auto split: option.splits sum.splits)
next
  case (GetRoomStats x14)
  with assms show ?thesis
    by (auto split: option.splits)
next
  case Ping
  with assms show ?thesis by auto
next
  case (Unknown x16)
  with assms show ?thesis by auto
qed

text \<open>
  Claim C8. A Consume request that succeeds stores the new consumer, for the producer
  asked for, with \<^verbatim>\<open>paused: true\<close>. A consumer that is paused is still paused
  after any request that keeps it, except a \<^verbatim>\<open>resumeConsumer\<close> request of its own
  peer in its own room that names it; and that request, when the engine carries it
  out, resumes it.
\<close>

theorem consumer_paused_until_resumed:
  "(fst (handleRpcRequest eng (Consume rid peerId prodId) s) = Inr (Consumed cid pid) \<longrightarrow>
      pid = prodId
      \<and> consumerOf (snd (handleRpcRequest eng (Consume rid peerId prodId) s)) rid peerId cid
          = Some \<lparr>producerId = prodId, paused = True\<rparr>)
   \<and> (consumerOf s rid peerId cid = Some c \<and> paused c
        \<and> consumerOf (snd (handleRpcRequest eng req s)) rid peerId cid = Some c'
        \<and> \<not> paused c' \<longrightarrow>
        req = ResumeConsumer rid peerId cid)
   \<and> (consumerOf s rid peerId cid = Some c \<and> settles eng = Resolves x \<longrightarrow>
        consumerOf (snd (handleRpcRequest eng (ResumeConsumer rid peerId cid) s)) rid peerId cid
          = Some (c\<lparr>paused := False\<rparr>))"
  using consume_success [of eng rid peerId prodId s cid pid]
    only_resume_unpauses [of s rid peerId cid c eng req c']
    resume_unpauses [of s rid peerId cid c eng x]
  by (simp add: prod_eq_iff del: handleRpcRequest.simps)

theorem consumer_paused_until_resumed_witness:
  "fst (handleRpcRequest (answers ''c2'') (Consume ''r'' ''b'' ''p1'') call)
     = Inr (Consumed ''c2'' ''p1'')
   \<and> consumerOf (snd (handleRpcRequest (answers ''c2'') (Consume ''r'' ''b'' ''p1'') call))
        ''r'' ''b'' ''c2''
       = Some \<lparr>producerId = ''p1'', paused = True\<rparr>
   \<and> consumerOf call ''r'' ''b'' ''c1'' = Some \<lparr>producerId = ''p1'', paused = True\<rparr>
   \<and> settles (answers []) = Resolves []
   \<and> consumerOf (snd (handleRpcRequest (answers []) (ResumeConsumer ''r'' ''b'' ''c1'') call))
        ''r'' ''b'' ''c1''
       = Some \<lparr>producerId = ''p1'', paused = False\<rparr>"
proof -
  have a: "fst (handleRpcRequest (answers ''c2'') (Consume ''r'' ''b'' ''p1'') call)
      = Inr (Consumed ''c2'' ''p1'')"
    by (simp add: call_state callRoom_def bob_def consume_def recvTransport_def answers_def)
  have b: "consumerOf call ''r'' ''b'' ''c1'' = Some \<lparr>producerId = ''p1'', paused = True\<rparr>"
    "settles (answers []) = Resolves []"
    by (simp_all add: call_state callRoom_def bob_def consumerOf_def peerOf_def answers_def)
  note t = consumer_paused_until_resumed
  from t [where eng = "answers ''c2''" and rid = "''r''" and peerId = "''b''"
        and prodId = "''p1''" and s = call and cid = "''c2''" and pid = "''p1''"] a
  have c: "consumerOf (snd (handleRpcRequest (answers ''c2'') (Consume ''r'' ''b'' ''p1'') call))
        ''r'' ''b'' ''c2'' = Some \<lparr>producerId = ''p1'', paused = True\<rparr>"
    by blast
  from t [where eng = "answers []" and rid = "''r''" and peerId = "''b''" and s = call
        and cid = "''c1''" and c = "\<lparr>producerId = ''p1'', paused = True\<rparr>" and x = "[]"] b
  have d: "consumerOf (snd (handleRpcRequest (answers []) (ResumeConsumer ''r'' ''b'' ''c1'') call))
        ''r'' ''b'' ''c1'' = Some \<lparr>producerId = ''p1'', paused = False\<rparr>"
    by (simp del: handleRpcRequest.simps)
  from a b c d show ?thesis
    by blast
qed

subsection \<open>Membership over runs in turn of Joins and Leaves\<close>

lemma track_run: "fst (track ops (s, present)) = run ops s"
  by (induction ops arbitrary: s present) auto

lemma join_registered:
  "map_of (rooms s) rid = Some rm \<Longrightarrow>
     handleRpcRequest eng (Join rid peerId name) s
       = (Inr (Peers (getPeerList (addPeer peerId name rm))),
          putRoom rid (addPeer peerId name rm) s)"
  by (simp add: getOrCreateRoom_def Let_def)

lemma join_unregistered:
  assumes "map_of (rooms s) rid = None"
  shows "(\<exists>e s1. handleRpcRequest eng (Join rid peerId name) s = (Inl e, s1)
            \<and> rooms s1 = rooms s \<and> effects s1 = effects s)
     \<or> (\<exists>res s1 w p. handleRpcRequest eng (Join rid peerId name) s = (Inr res, s1)
            \<and> rooms s1 = AList.update rid \<lparr>roomId = rid, router = w, peers = [(peerId, p)]\<rparr> (rooms s)
            \<and> effects s1 = effects s @ [RouterCreated rid w])"
  using assms
  by (auto simp: getOrCreateRoom_def getNextWorker_def Let_def addPeer_def hasPeer_def
      putRoom_def split: option.splits reply.splits)

lemma routers_append:
  "routersCreated rid (xs @ ys) = routersCreated rid xs + routersCreated rid ys"
  "routersClosed rid (xs @ ys) = routersClosed rid xs + routersClosed rid ys"
  by (simp_all add: routersCreated_def routersClosed_def)

lemma routers_transports [simp]:
  "routersCreated rid (map (TransportClosed \<circ> f) ts) = 0"
  "routersClosed rid (map (TransportClosed \<circ> f) ts) = 0"
  by (induction ts) (simp_all add: routersCreated_def routersClosed_def)

lemma routers_single [simp]:
  "routersCreated rid [RouterCreated r w] = (if r = rid then 1 else 0)"
  "routersClosed rid [RouterCreated r w] = 0"
  "routersCreated rid [RouterClosed r] = 0"
  "routersClosed rid [RouterClosed r] = (if r = rid then 1 else 0)"
  by (simp_all add: routersCreated_def routersClosed_def)

lemma keys_delete: "fst ` set (AList.delete k al) = fst ` set al - {k}"
  using delete_keys [of k al, THEN arg_cong, of set] by simp

lemma keys_update: "fst ` set (AList.update k v al) = insert k (fst ` set al)"
  using dom_update [of k v al] by simp

lemma membership_join:
  assumes inv: "\<forall>r. membership s present r"
    and step: "handleRpcRequest eng (Join rid peerId name) s = (res, s')"
  shows "membership s' (noteOutcome (Join rid peerId name) res present) r"
proof (cases "map_of (rooms s) rid")
  case (Some rm)
  from inv Some have rm: "roomId rm = rid" "peers rm \<noteq> []" "distinct (map fst (peers rm))"
    "set (map fst (peers rm)) = present rid"
    "routersClosed rid (effects s) + 1 = routersCreated rid (effects s)"
    using spec [OF inv, of rid] by (simp_all add: membership_def)
  from step join_registered [OF Some, of eng peerId name]
  have res: "res = Inr (Peers (getPeerList (addPeer peerId name rm)))"
    and s': "s' = putRoom rid (addPeer peerId name rm) s"
    by simp_all
  show ?thesis
  proof (cases "r = rid")
    case other: False
    with spec [OF inv, of r] show ?thesis
      by (auto simp: membership_def res s' putRoom_def update_conv' split: option.splits)
  next
    case True
    show ?thesis
    proof (cases "map_of (peers rm) peerId")
      case None
      then have "peerId \<notin> fst ` set (peers rm)"
        by (simp add: map_of_eq_None_iff)
      with rm None True show ?thesis
        by (simp add: membership_def res s' putRoom_def addPeer_def hasPeer_def update_conv'
            keys_update distinct_update)
    next
      case (Some p)
      then have "peerId \<in> fst ` set (peers rm)"
        by (metis map_of_eq_None_iff option.distinct(1))
      with rm have "insert peerId (present rid) = present rid"
        by auto
      with rm Some True \<open>map_of (rooms s) rid = Some rm\<close> show ?thesis
        by (simp add: membership_def res s' putRoom_same addPeer_def hasPeer_def)
    qed
  qed
next
  case None
  with spec [OF inv, of rid] have empty: "present rid = {}"
      "routersClosed rid (effects s) = routersCreated rid (effects s)"
    by (simp_all add: membership_def)
  from join_unregistered [OF None, of eng peerId name] step
  consider (failed) e where "res = Inl e" "rooms s' = rooms s" "effects s' = effects s"
    | (created) x w p where "res = Inr x"
        "rooms s' = AList.update rid \<lparr>roomId = rid, router = w, peers = [(peerId, p)]\<rparr> (rooms s)"
        "effects s' = effects s @ [RouterCreated rid w]"
    by auto
  then show ?thesis
  proof cases
    case failed
    with spec [OF inv, of r] show ?thesis
      by (auto simp: membership_def split: option.splits)
  next
    case created
    show ?thesis
    proof (cases "r = rid")
      case True
      with created empty show ?thesis
        by (simp add: membership_def update_conv' routers_append)
    next
      case False
      with created spec [OF inv, of r] show ?thesis
        by (auto simp: membership_def update_conv' routers_append split: option.splits)
    qed
  qed
qed

lemma membership_leave:
  assumes inv: "\<forall>r. membership s present r"
    and step: "handleRpcRequest eng (Leave rid peerId) s = (res, s')"
  shows "membership s' (noteOutcome (Leave rid peerId) res present) r"
proof (cases "map_of (rooms s) rid")
  case None
  with step have "res = Inr (ClosedProducers [])" "s' = s"
    by simp_all
  moreover from None spec [OF inv, of rid] have "present rid = {}"
    by (simp add: membership_def)
  ultimately show ?thesis
    using spec [OF inv, of r] None
    by (cases "r = rid") (auto simp: membership_def split: option.splits)
next
  case (Some rm)
  from Some spec [OF inv, of rid]
  have rm: "roomId rm = rid" "peers rm \<noteq> []" "distinct (map fst (peers rm))"
    "set (map fst (peers rm)) = present rid"
    "routersClosed rid (effects s) + 1 = routersCreated rid (effects s)"
    by (simp_all add: membership_def)
  show ?thesis
  proof (cases "map_of (peers rm) peerId")
    case None
    with leave_stranger [OF Some None, of eng] step rm
    have "res = Inr (ClosedProducers [])" "s' = s"
      by simp_all
    moreover from None rm have "present rid - {peerId} = present rid"
      by (auto simp: map_of_eq_None_iff)
    ultimately show ?thesis
      using spec [OF inv, of r]
      by (cases "r = rid") (auto simp: membership_def split: option.splits)
  next
    case p: (Some p)
    show ?thesis
    proof (cases "AList.delete peerId (peers rm) = []")
      case True
      with leave_member [OF Some p, of eng] step
      have res: "res = Inr (ClosedProducers (map fst (producers p)))"
        and s': "s' = s\<lparr>rooms := AList.delete rid (rooms s),
                        effects := effects s @ map TransportClosed (map fst (transports p))
                                     @ [RouterClosed (roomId rm)]\<rparr>"
        by simp_all
      from True have "fst ` set (AList.delete peerId (peers rm)) = {}"
        by simp
      with rm have gone: "present rid - {peerId} = {}"
        by (simp add: keys_delete)
      show ?thesis
      proof (cases "r = rid")
        case True
        with rm gone show ?thesis
          by (simp add: membership_def res s' delete_conv' routers_append)
      next
        case False
        with rm spec [OF inv, of r] show ?thesis
          by (auto simp: membership_def res s' routers_append split: option.splits)
      qed
    next
      case False
      with leave_member [OF Some p, of eng] step
      have res: "res = Inr (ClosedProducers (map fst (producers p)))"
        and s': "s' = s\<lparr>rooms := AList.update rid (rm\<lparr>peers := AList.delete peerId (peers rm)\<rparr>)
                                   (rooms s),
                        effects := effects s @ map TransportClosed (map fst (transports p))\<rparr>"
        by simp_all
      show ?thesis
      proof (cases "r = rid")
        case True
        with rm False show ?thesis
          by (simp add: membership_def res s' update_conv' routers_append keys_delete
              distinct_delete)
      next
        case False
        with spec [OF inv, of r] show ?thesis
          by (auto simp: membership_def res s' update_conv' routers_append
              split: option.splits)
      qed
    qed
  qed
qed

lemma membership_step:
  assumes "\<forall>r. membership s present r" and "joinLeave req"
  shows "\<forall>r. membership (snd (handleRpcRequest eng req s))
                (noteOutcome req (fst (handleRpcRequest eng req s)) present) r"
proof (cases req)
  case (Join rid peerId name)
  with membership_join [OF assms(1), of eng rid peerId name] show ?thesis
    by (simp add: prod_eq_iff del: handleRpcRequest.simps)
next
  case (Leave rid peerId)
  with membership_leave [OF assms(1), of eng rid peerId] show ?thesis
    by (simp add: prod_eq_iff del: handleRpcRequest.simps)
qed (use assms(2) in simp_all)

lemma membership_track:
  assumes "\<forall>r. membership s present r" and "list_all (\<lambda>(eng, req). joinLeave req) ops"
  shows "\<forall>r. membership (fst (track ops (s, present))) (snd (track ops (s, present))) r"
  using assms
proof (induction ops arbitrary: s present)
  case Nil
  then show ?case by simp
next
  case (Cons op ops)
  obtain eng req where op: "op = (eng, req)"
    by (cases op)
  with Cons.prems have "joinLeave req" "list_all (\<lambda>(eng, req). joinLeave req) ops"
    by simp_all
  with Cons.IH [OF membership_step [OF Cons.prems(1) \<open>joinLeave req\<close>, of eng]] op
  show ?case
    by (simp del: handleRpcRequest.simps)
qed

lemma membership_init: "membership (init n) (\<lambda>rid. {}) r"
  by (simp add: membership_def init_def routersCreated_def routersClosed_def)

text \<open>
  Requests handled in turn. After any run in turn of Join and Leave requests from the
  start of the server, for every room id: if the id is registered, the peers of the
  room are exactly the peers that joined it and have not left, the peer count is their
  number and is not zero, and exactly one of the routers created for the id has not
  been closed; if the id is not registered, nobody has joined it and not left, and every
  router created for it has been closed.
\<close>

lemma in_turn_join_leave_membership:
  assumes "list_all (\<lambda>(eng, req). joinLeave req) ops"
  shows "case map_of (rooms (run ops (init n))) rid of
           None \<Rightarrow>
             joinedNotLeft ops n rid = {}
             \<and> routersClosed rid (effects (run ops (init n)))
                 = routersCreated rid (effects (run ops (init n)))
         | Some rm \<Rightarrow>
             set (map fst (peers rm)) = joinedNotLeft ops n rid
             \<and> getPeerCount rm = card (joinedNotLeft ops n rid)
             \<and> 0 < getPeerCount rm
             \<and> routersClosed rid (effects (run ops (init n))) + 1
                 = routersCreated rid (effects (run ops (init n)))"
proof -
  have "membership (init n) (\<lambda>rid. {}) r" for r
    by (rule membership_init)
  then have "\<forall>r. membership (init n) (\<lambda>rid. {}) r"
    by blast
  from membership_track [OF this assms]
  have "membership (run ops (init n)) (joinedNotLeft ops n) rid"
    by (simp add: track_run joinedNotLeft_def)
  moreover have "length (peers rm) = card (set (map fst (peers rm)))"
    if "distinct (map fst (peers rm))" for rm :: room
    using distinct_card [OF that] by simp
  ultimately show ?thesis
    by (auto simp: membership_def getPeerCount_def split: option.splits)
qed

lemma comings_run:
  "run comings (init 2) =
     \<lparr>workers = 2, nextWorkerIdx = Some 0,
      rooms = [(''r'', \<lparr>roomId = ''r'', router = 1,
                         peers = [(''c'', \<lparr>displayName = ''Cy'', transports = [],
                                           producers = [], consumers = []\<rparr>)]\<rparr>)],
      effects = [RouterCreated ''r'' 0, RouterClosed ''r'', RouterCreated ''r'' 1]\<rparr>"
  by (simp add: comings_def handler_defs removePeer_def getPeerCount_def deleteRoom_def
      close_def Let_def)

lemma comings_joined: "joinedNotLeft comings 2 ''r'' = {''c''}"
  by (simp add: joinedNotLeft_def comings_def handler_defs removePeer_def getPeerCount_def
      deleteRoom_def close_def Let_def insert_Diff_if)

lemma in_turn_join_leave_example:
  "list_all (\<lambda>(eng, req). joinLeave req) comings
   \<and> map_option (\<lambda>rm. map fst (peers rm)) (map_of (rooms (run comings (init 2))) ''r'')
       = Some [''c'']
   \<and> joinedNotLeft comings 2 ''r'' = {''c''}
   \<and> routersCreated ''r'' (effects (run comings (init 2))) = 2
   \<and> routersClosed ''r'' (effects (run comings (init 2))) = 1"
proof -
  have h: "list_all (\<lambda>(eng, req). joinLeave req) comings"
    by (simp add: comings_def)
  from in_turn_join_leave_membership [OF h, of 2 "''r''"] h show ?thesis
    by (simp add: comings_run comings_joined routersCreated_def routersClosed_def)
qed

subsection \<open>The worker index stays inside the worker array\<close>

text \<open>
  A server started with at least one worker always has \<^verbatim>\<open>nextWorkerIdx\<close> pointing
  into the worker array, whatever requests it has handled: the states that the
  properties of room creation speak of are the states the server can be in.
\<close>

lemma getOrCreateRoom_workers:
  assumes "nextWorkerIdx s = Some i" and "i < workers s"
  shows "workers (snd (getOrCreateRoom rid r s)) = workers s
     \<and> (\<exists>j < workers s. nextWorkerIdx (snd (getOrCreateRoom rid r s)) = Some j)"
  using assms
  by (auto simp: getOrCreateRoom_def getNextWorker_def Let_def
      split: option.splits reply.splits)

lemma handler_workers:
  assumes "nextWorkerIdx s = Some i" and "i < workers s"
  shows "workers (snd (handleRpcRequest eng req s)) = workers s
     \<and> (\<exists>j < workers s. nextWorkerIdx (snd (handleRpcRequest eng req s)) = Some j)"
proof (cases req)
  case (GetRouterRtpCapabilities rid)
  with getOrCreateRoom_workers [OF assms, of rid "settles eng"] show ?thesis
    by (auto split: prod.splits sum.splits)
next
  case (Join rid peerId name)
  with getOrCreateRoom_workers [OF assms, of rid "settles eng"] show ?thesis
    by (auto simp: putRoom_def Let_def split: prod.splits sum.splits)
next
  case (Leave rid peerId)
  with assms show ?thesis
    by (auto simp: putRoom_def deleteRoom_def Let_def split: option.splits prod.splits)
qed (use assms in \<open>auto simp: putRoom_def Let_def split: option.splits sum.splits prod.splits\<close>)

lemma run_workers:
  assumes "nextWorkerIdx s = Some i" and "i < workers s"
  shows "workers (run ops s) = workers s \<and> (\<exists>j < workers s. nextWorkerIdx (run ops s) = Some j)"
  using assms
proof (induction ops arbitrary: s i)
  case Nil
  then show ?case by simp
next
  case (Cons op ops)
  obtain eng req where op: "op = (eng, req)"
    by (cases op)
  from handler_workers [OF Cons.prems, of eng req]
  obtain j where j: "workers (snd (handleRpcRequest eng req s)) = workers s"
    "j < workers s" "nextWorkerIdx (snd (handleRpcRequest eng req s)) = Some j"
    by blast
  from Cons.IH [of "snd (handleRpcRequest eng req s)" j] j op show ?case
    by (simp del: handleRpcRequest.simps)
qed

lemma worker_index_in_range:
  "0 < n \<Longrightarrow> \<exists>j < n. nextWorkerIdx (run ops (init n)) = Some j \<and> workers (run ops (init n)) = n"
  using run_workers [of "init n" 0 ops] by (auto simp: init_def)

section \<open>Properties of overlapping requests\<close>

lemmas overlap_defs =
  start_def joinEnter_def getOrCreateRoomEnter_def getOrCreateRoomResume_def getNextWorkerO_def
  roomAt_def registeredRoom_def leaveO_def deleteRoomO_def

lemma twoJoins_entered:
  "play (take 2 twoJoins) (start 2) =
     \<lparr>oWorkers = 2, oNextWorkerIdx = Some 0, objects = [], registry = [], oEffects = [],
      handlers = [AtCreateRouter ''r'' 0 ''a'' ''Ann'', AtCreateRouter ''r'' 1 ''b'' ''Bob'']\<rparr>"
  by (simp add: twoJoins_def overlap_defs Let_def)

lemma twoJoins_first_answered:
  "play (take 4 twoJoins) (start 2) =
     \<lparr>oWorkers = 2, oNextWorkerIdx = Some 0,
      objects = [\<lparr>roomId = ''r'', router = 0, peers = [(''a'', newPeer ''Ann'')]\<rparr>],
      registry = [(''r'', 0)],
      oEffects = [RouterCreated ''r'' 0],
      handlers =
        [Replied (Inr (Peers
           [\<lparr>infoPeerId = ''a'', infoDisplayName = ''Ann'', infoProducers = []\<rparr>])),
         AtCreateRouter ''r'' 1 ''b'' ''Bob'']\<rparr>"
  by (simp add: twoJoins_def overlap_defs Let_def newPeer_def addPeer_def hasPeer_def
      getPeerList_def)

lemma twoJoins_second_created:
  "play (take 5 twoJoins) (start 2) =
     \<lparr>oWorkers = 2, oNextWorkerIdx = Some 0,
      objects = [\<lparr>roomId = ''r'', router = 0, peers = [(''a'', newPeer ''Ann'')]\<rparr>,
                 \<lparr>roomId = ''r'', router = 1, peers = []\<rparr>],
      registry = [(''r'', 1)],
      oEffects = [RouterCreated ''r'' 0, RouterCreated ''r'' 1],
      handlers =
        [Replied (Inr (Peers
           [\<lparr>infoPeerId = ''a'', infoDisplayName = ''Ann'', infoProducers = []\<rparr>])),
         AtGetOrCreateRoom 1 ''b'' ''Bob'']\<rparr>"
  by (simp add: twoJoins_def overlap_defs Let_def newPeer_def addPeer_def hasPeer_def
      getPeerList_def)

lemma twoJoins_answered:
  "play twoJoins (start 2) =
     \<lparr>oWorkers = 2, oNextWorkerIdx = Some 0,
      objects = [\<lparr>roomId = ''r'', router = 0, peers = [(''a'', newPeer ''Ann'')]\<rparr>,
                 \<lparr>roomId = ''r'', router = 1, peers = [(''b'', newPeer ''Bob'')]\<rparr>],
      registry = [(''r'', 1)],
      oEffects = [RouterCreated ''r'' 0, RouterCreated ''r'' 1],
      handlers =
        [Replied (Inr (Peers
           [\<lparr>infoPeerId = ''a'', infoDisplayName = ''Ann'', infoProducers = []\<rparr>])),
         Replied (Inr (Peers
           [\<lparr>infoPeerId = ''b'', infoDisplayName = ''Bob'', infoProducers = []\<rparr>]))]\<rparr>"
  by (simp add: twoJoins_def overlap_defs Let_def newPeer_def addPeer_def hasPeer_def
      getPeerList_def)

lemma play_append: "play (es @ fs) s = play fs (play es s)"
  by (induction es arbitrary: s) simp_all

lemma twoJoins_then_leave:
  "play (twoJoins @ [LeaveArrives ''r'' ''b'']) (start 2) =
     \<lparr>oWorkers = 2, oNextWorkerIdx = Some 0,
      objects = [\<lparr>roomId = ''r'', router = 0, peers = [(''a'', newPeer ''Ann'')]\<rparr>,
                 \<lparr>roomId = ''r'', router = 1, peers = []\<rparr>],
      registry = [],
      oEffects = [RouterCreated ''r'' 0, RouterCreated ''r'' 1, RouterClosed ''r''],
      handlers =
        [Replied (Inr (Peers
           [\<lparr>infoPeerId = ''a'', infoDisplayName = ''Ann'', infoProducers = []\<rparr>])),
         Replied (Inr (Peers
           [\<lparr>infoPeerId = ''b'', infoDisplayName = ''Bob'', infoProducers = []\<rparr>])),
         Replied (Inr (ClosedProducers []))]\<rparr>"
  by (simp add: play_append twoJoins_answered leaveO_def deleteRoomO_def roomAt_def Let_def
      newPeer_def removePeer_def getPeerCount_def close_def)

text \<open>
  Handled in turn, the same two lines give one room with both peers and one router, as
  the handler without overlap does.
\<close>

lemma joinsInTurn_answered:
  "play joinsInTurn (start 2) =
     \<lparr>oWorkers = 2, oNextWorkerIdx = Some 1,
      objects = [\<lparr>roomId = ''r'', router = 0,
                  peers = [(''a'', newPeer ''Ann''), (''b'', newPeer ''Bob'')]\<rparr>],
      registry = [(''r'', 0)],
      oEffects = [RouterCreated ''r'' 0],
      handlers =
        [Replied (Inr (Peers
           [\<lparr>infoPeerId = ''a'', infoDisplayName = ''Ann'', infoProducers = []\<rparr>])),
         Replied (Inr (Peers
           [\<lparr>infoPeerId = ''a'', infoDisplayName = ''Ann'', infoProducers = []\<rparr>,
            \<lparr>infoPeerId = ''b'', infoDisplayName = ''Bob'', infoProducers = []\<rparr>]))]\<rparr>"
  by (simp add: joinsInTurn_def overlap_defs Let_def newPeer_def addPeer_def hasPeer_def
      getPeerList_def)

lemma joinsInTurn_agrees:
  "rooms (run [(answers [], Join ''r'' ''a'' ''Ann''), (answers [], Join ''r'' ''b'' ''Bob'')]
            (init 2))
     = [(''r'', \<lparr>roomId = ''r'', router = 0,
                 peers = [(''a'', newPeer ''Ann''), (''b'', newPeer ''Bob'')]\<rparr>)]
   \<and> map_option getPeerList (registeredRoom (play joinsInTurn (start 2)) ''r'')
     = Some [\<lparr>infoPeerId = ''a'', infoDisplayName = ''Ann'', infoProducers = []\<rparr>,
             \<lparr>infoPeerId = ''b'', infoDisplayName = ''Bob'', infoProducers = []\<rparr>]"
  by (simp add: joinsInTurn_answered handler_defs Let_def newPeer_def registeredRoom_def
      roomAt_def)

subsection \<open>Two calls of getOrCreateRoom for one id\<close>

text \<open>
  Claim C5 fails on the server when the second call is made while the first waits for
  its router. Both join handlers find \<open>r\<close> unregistered and each asks a worker for a
  router. Ann's call registers the Room at address 0 and Ann joins it. Bob's call then
  runs on from its suspension point: it allocates a second router, constructs a second
  Room and registers it in place of the first, and returns the Room at address 1, not
  the registered one at address 0.
\<close>

theorem overlapping_getOrCreateRoom_allocates_twice:
  "handlers (play (take 2 twoJoins) (start 2))
     = [AtCreateRouter ''r'' 0 ''a'' ''Ann'', AtCreateRouter ''r'' 1 ''b'' ''Bob'']
   \<and> registry (play (take 4 twoJoins) (start 2)) = [(''r'', 0)]
   \<and> oEffects (play (take 4 twoJoins) (start 2)) = [RouterCreated ''r'' 0]
   \<and> handlers (play (take 5 twoJoins) (start 2)) ! 1 = AtGetOrCreateRoom 1 ''b'' ''Bob''
   \<and> registry (play (take 5 twoJoins) (start 2)) = [(''r'', 1)]
   \<and> oEffects (play (take 5 twoJoins) (start 2))
       = [RouterCreated ''r'' 0, RouterCreated ''r'' 1]"
  by (simp add: twoJoins_entered twoJoins_first_answered twoJoins_second_created)

subsection \<open>Two joins of a room that is not registered yet\<close>

text \<open>
  Claim C3 fails on the server when two Joins of an unregistered room overlap. Both
  Joins are answered with success and nobody has left, yet the registered room holds
  Bob alone: its peer count is 1 where two peers have joined and not left, and Ann is
  in a Room that the registry no longer holds. When Bob then leaves, the room is
  destroyed with Ann not having left, and of the two routers created for \<open>r\<close> one is
  closed and the other never is.
\<close>

theorem overlapping_joins_lose_peer_and_router:
  "handlers (play twoJoins (start 2))
     = [Replied (Inr (Peers
          [\<lparr>infoPeerId = ''a'', infoDisplayName = ''Ann'', infoProducers = []\<rparr>])),
        Replied (Inr (Peers
          [\<lparr>infoPeerId = ''b'', infoDisplayName = ''Bob'', infoProducers = []\<rparr>]))]
   \<and> map_option getPeerCount (registeredRoom (play twoJoins (start 2)) ''r'') = Some 1
   \<and> map_option getPeerList (registeredRoom (play twoJoins (start 2)) ''r'')
       = Some [\<lparr>infoPeerId = ''b'', infoDisplayName = ''Bob'', infoProducers = []\<rparr>]
   \<and> registeredRoom (play (twoJoins @ [LeaveArrives ''r'' ''b'']) (start 2)) ''r'' = None
   \<and> oEffects (play (twoJoins @ [LeaveArrives ''r'' ''b'']) (start 2))
       = [RouterCreated ''r'' 0, RouterCreated ''r'' 1, RouterClosed ''r'']
   \<and> routersCreated ''r'' (oEffects (play (twoJoins @ [LeaveArrives ''r'' ''b'']) (start 2))) = 2
   \<and> routersClosed ''r'' (oEffects (play (twoJoins @ [LeaveArrives ''r'' ''b'']) (start 2))) = 1"
  by (simp add: twoJoins_answered twoJoins_then_leave registeredRoom_def roomAt_def
      getPeerCount_def getPeerList_def newPeer_def routersCreated_def routersClosed_def)

end
